theory Spec2Isabelle
  imports Main "HOL-Library.AList"
begin

section \<open>Python values and exceptions\<close>

text \<open>
  The repository is Python. Exceptions are values: an \<open>HTTPException\<close> carries its
  status code and detail string, every other exception class is recorded by its
  name. A function that can raise returns \<open>error + 'a\<close>, with \<open>Inl\<close> the exception.
\<close>

datatype error = HTTPException nat string | PyError string

text \<open>Timestamps (\<open>datetime.utcnow()\<close>) are whole seconds since the epoch.\<close>

type_synonym datetime = int

text \<open>
  Values whose type the code does not fix: what \<open>json.load\<close> returns, what a caller
  passes in \<open>**kwargs\<close>, and what \<open>setattr\<close> stores in a model field (pydantic does
  not validate on assignment). A dict keeps its insertion order: an association
  list whose keys are distinct.
\<close>

datatype pyval =
    PNone
  | PBool bool
  | PInt int
  | PStr string
  | PDate datetime
  | PList "pyval list"
  | PDict "(string \<times> pyval) list"

text \<open>Python truthiness, as \<open>not x\<close> and \<open>if x\<close> read it.\<close>

fun truthy :: "pyval \<Rightarrow> bool" where
  "truthy PNone = False"
| "truthy (PBool b) = b"
| "truthy (PInt i) = (i \<noteq> 0)"
| "truthy (PStr s) = (s \<noteq> [])"
| "truthy (PDate d) = True"
| "truthy (PList xs) = (xs \<noteq> [])"
| "truthy (PDict kvs) = (kvs \<noteq> [])"

section \<open>The credential store: \<open>lightrag/api/user_manager.py\<close>\<close>

text \<open>
  \<open>class User(BaseModel)\<close>. The fields \<open>email\<close>, \<open>is_active\<close> and \<open>metadata\<close> are
  the ones \<open>update_user\<close> assigns with \<open>setattr\<close> from \<open>**kwargs\<close>, so they hold
  whatever value the caller passed.
\<close>

record User =
  username :: string
  email :: pyval
  password_hash :: string
  salt :: string
  created_at :: datetime
  last_login :: "datetime option"
  is_active :: pyval
  workspace :: string
  metadata :: pyval

text \<open>
  \<open>self.users: Dict[str, User]\<close>, in insertion order. \<open>map_of\<close> is the lookup,
  \<open>AList.update\<close> the assignment \<open>self.users[k] = v\<close> (in place for a key that is
  there, at the end for a new one), \<open>AList.delete\<close> is \<open>del self.users[k]\<close>.
\<close>

type_synonym user_dict = "(string \<times> User) list"

text \<open>
  \<open>_hash_password\<close>: \<open>hashlib.sha256((password + salt).encode()).hexdigest()\<close>.
  The digest is the library's; it is the parameter \<open>sha\<close>.
\<close>

definition hash_password :: "(string \<Rightarrow> string) \<Rightarrow> string \<Rightarrow> string \<Rightarrow> string" where
  "hash_password sha password slt = sha (password @ slt)"

text \<open>
  \<open>create_user\<close>. The two values the code draws from its environment are
  arguments: \<open>token_hex\<close> is what \<open>secrets.token_hex(16)\<close> returns and \<open>utcnow\<close> what
  \<open>datetime.utcnow()\<close> returns. The result is what the call returns or raises,
  together with \<open>self.users\<close> after the call.
\<close>

definition create_user ::
  "(string \<Rightarrow> string) \<Rightarrow> string \<Rightarrow> datetime \<Rightarrow> user_dict \<Rightarrow>
   string \<Rightarrow> string \<Rightarrow> string \<Rightarrow> (error + User) \<times> user_dict" where
  "create_user sha token_hex utcnow users uname mail password =
     (if uname \<in> dom (map_of users)
      then (Inl (HTTPException 409 (''User '' @ uname @ '' already exists'')), users)
      else
        let slt = token_hex;
            pw_hash = hash_password sha password slt;
            ws = ''user_'' @ uname;
            user = \<lparr> username = uname, email = PStr mail, password_hash = pw_hash,
                     salt = slt, created_at = utcnow, last_login = None,
                     is_active = PBool True, workspace = ws, metadata = PDict [] \<rparr>
        in (Inr user, AList.update uname user users))"

text \<open>
  \<open>authenticate\<close>. A \<open>User\<close> object is always truthy, so \<open>not user\<close> is the test for
  \<open>None\<close>. The successful branch assigns \<open>last_login\<close> on the object the dict holds.
\<close>

definition authenticate ::
  "(string \<Rightarrow> string) \<Rightarrow> datetime \<Rightarrow> user_dict \<Rightarrow> string \<Rightarrow> string \<Rightarrow>
   User option \<times> user_dict" where
  "authenticate sha utcnow users uname password =
     (case map_of users uname of
        None \<Rightarrow> (None, users)
      | Some user \<Rightarrow>
          if \<not> truthy (is_active user) then (None, users)
          else if hash_password sha password (salt user) \<noteq> password_hash user
          then (None, users)
          else
            let user' = user\<lparr> last_login := Some utcnow \<rparr>
            in (Some user', AList.update uname user' users))"

definition get_user :: "user_dict \<Rightarrow> string \<Rightarrow> User option" where
  "get_user users uname = map_of users uname"

definition list_users :: "user_dict \<Rightarrow> User list" where
  "list_users users = map snd users"

definition delete_user :: "user_dict \<Rightarrow> string \<Rightarrow> bool \<times> user_dict" where
  "delete_user users uname =
     (if uname \<in> dom (map_of users) then (True, AList.delete uname users)
      else (False, users))"

definition get_user_workspace :: "user_dict \<Rightarrow> string \<Rightarrow> error + string" where
  "get_user_workspace users uname =
     (case get_user users uname of
        None \<Rightarrow> Inl (HTTPException 404 (''User '' @ uname @ '' not found''))
      | Some user \<Rightarrow> Inr (workspace user))"

text \<open>
  \<open>setattr(user, field, v)\<close> on the model object. A field the record types
  as a string or a timestamp takes a value of that type; \<open>update_user\<close> only ever
  names the three fields that hold any value.
\<close>

definition setattr :: "User \<Rightarrow> string \<Rightarrow> pyval \<Rightarrow> User" where
  "setattr user field v =
     (if field = ''email'' then user\<lparr> email := v \<rparr>
      else if field = ''is_active'' then user\<lparr> is_active := v \<rparr>
      else if field = ''metadata'' then user\<lparr> metadata := v \<rparr>
      else (case v of
        PStr s \<Rightarrow>
          (if field = ''username'' then user\<lparr> username := s \<rparr>
           else if field = ''password_hash'' then user\<lparr> password_hash := s \<rparr>
           else if field = ''salt'' then user\<lparr> salt := s \<rparr>
           else if field = ''workspace'' then user\<lparr> workspace := s \<rparr>
           else user)
      | PDate d \<Rightarrow>
          (if field = ''created_at'' then user\<lparr> created_at := d \<rparr>
           else if field = ''last_login'' then user\<lparr> last_login := Some d \<rparr>
           else user)
      | PNone \<Rightarrow> (if field = ''last_login'' then user\<lparr> last_login := None \<rparr> else user)
      | _ \<Rightarrow> user))"

definition allowed_fields :: "string list" where
  "allowed_fields = [''email'', ''is_active'', ''metadata'']"

text \<open>
  \<open>update_user(self, username, **kwargs)\<close>; \<open>kwargs\<close> holds the keyword arguments
  of the call besides \<open>username\<close>. A keyword named like one of the two
  parameters (\<open>self\<close>, \<open>username\<close>) cannot be bound: the call raises \<open>TypeError\<close>
  before the body runs, and nothing is updated.
  The loop runs over \<open>allowed_fields\<close>. With a \<open>password\<close> key the salt is
  assigned first and the hash second; \<open>kwargs['password'] + user.salt\<close> raises
  \<open>TypeError\<close> when the password is not a string, after the salt was assigned.
\<close>

definition update_user ::
  "(string \<Rightarrow> string) \<Rightarrow> string \<Rightarrow> user_dict \<Rightarrow> string \<Rightarrow> (string \<times> pyval) list \<Rightarrow>
   (error + User option) \<times> user_dict" where
  "update_user sha token_hex users uname kwargs =
     (if ''self'' \<in> dom (map_of kwargs) \<or> ''username'' \<in> dom (map_of kwargs)
      then (Inl (PyError ''TypeError''), users)
      else
       (case map_of users uname of
          None \<Rightarrow> (Inr None, users)
        | Some user \<Rightarrow>
            let user1 = fold (\<lambda>field u. case map_of kwargs field of
                                           Some v \<Rightarrow> setattr u field v
                                         | None \<Rightarrow> u)
                          allowed_fields user
            in (case map_of kwargs ''password'' of
                 None \<Rightarrow> (Inr (Some user1), AList.update uname user1 users)
               | Some pw \<Rightarrow>
                   let user2 = user1\<lparr> salt := token_hex \<rparr>
                   in (case pw of
                         PStr p \<Rightarrow>
                           let user3 =
                                 user2\<lparr> password_hash := hash_password sha p (salt user2) \<rparr>
                           in (Inr (Some user3), AList.update uname user3 users)
                       | _ \<Rightarrow>
                           (Inl (PyError ''TypeError''), AList.update uname user2 users)))))"

section \<open>The login portal: \<open>integrated_auth_server.py\<close>\<close>

text \<open>\<open>d[k]\<close> on a dict: the stored item, or \<open>KeyError\<close>.\<close>

definition getitem :: "(string \<times> 'a) list \<Rightarrow> string \<Rightarrow> error + 'a" where
  "getitem d k = (case map_of d k of None \<Rightarrow> Inl (PyError ''KeyError'') | Some v \<Rightarrow> Inr v)"

text \<open>The module's dict literal \<open>USERS\<close>.\<close>

definition USERS :: "(string \<times> (string \<times> string) list) list" where
  "USERS =
     [(''admin'', [(''password'', ''admin123''), (''email'', ''admin@bosch.com''),
                   (''workspace'', ''user_admin'')]),
      (''demo'', [(''password'', ''demo123''), (''email'', ''demo@bosch.com''),
                  (''workspace'', ''user_demo'')]),
      (''waiyan'', [(''password'', ''password123''), (''email'', ''waiyan@bosch.com''),
                    (''workspace'', ''user_waiyan'')])]"

text \<open>
  The PyJWT library is not part of the repository. Its HS256 signature is
  modelled symbolically: a token is the payload together with the key that
  signed it, and a signature verifies under exactly that key. Any other string
  is \<open>Malformed\<close>.

  \<open>jwt.encode\<close> turns a \<open>datetime\<close> under \<open>exp\<close>, \<open>iat\<close> or \<open>nbf\<close> into its
  integer timestamp; a \<open>datetime\<close> left in the payload cannot be serialised.
  \<open>jwt.decode\<close> checks the signature first and the expiry second; the expiry
  check of PyJWT 2 is \<open>exp <= now\<close>. \<open>ExpiredSignatureError\<close>,
  \<open>InvalidSignatureError\<close> and \<open>DecodeError\<close> all derive from \<open>PyJWTError\<close>.
\<close>

datatype token = Signed string "(string \<times> pyval) list" | Malformed string

definition jwt_encode :: "(string \<times> pyval) list \<Rightarrow> string \<Rightarrow> error + token" where
  "jwt_encode payload secret_key =
     (let payload' = map (\<lambda>(k, v). case v of
                            PDate d \<Rightarrow> if k \<in> {''exp'', ''iat'', ''nbf''} then (k, PInt d)
                                       else (k, v)
                          | _ \<Rightarrow> (k, v)) payload
      in if list_ex (\<lambda>(k, v). case v of PDate d \<Rightarrow> True | _ \<Rightarrow> False) payload'
         then Inl (PyError ''TypeError'')
         else Inr (Signed secret_key payload'))"

definition jwt_decode :: "token \<Rightarrow> string \<Rightarrow> datetime \<Rightarrow> error + (string \<times> pyval) list" where
  "jwt_decode tok secret_key now =
     (case tok of
        Malformed s \<Rightarrow> Inl (PyError ''DecodeError'')
      | Signed k payload \<Rightarrow>
          if k \<noteq> secret_key then Inl (PyError ''InvalidSignatureError'')
          else (case map_of payload ''exp'' of
                  None \<Rightarrow> Inr payload
                | Some (PInt e) \<Rightarrow>
                    if e \<le> now then Inl (PyError ''ExpiredSignatureError'') else Inr payload
                | Some _ \<Rightarrow> Inl (PyError ''DecodeError'')))"

definition PyJWTError :: "error \<Rightarrow> bool" where
  "PyJWTError e =
     (e \<in> {PyError ''DecodeError'', PyError ''InvalidSignatureError'',
            PyError ''ExpiredSignatureError''})"

text \<open>
  \<open>create_token\<close>. \<open>secret\<close> is the module's \<open>SECRET_KEY\<close> (read from the
  environment), \<open>utcnow\<close> the clock reading. \<open>timedelta(hours=48)\<close> is 172800
  seconds. \<open>USERS[username]\<close> raises \<open>KeyError\<close> for a name that is not there.
\<close>

definition create_token :: "string \<Rightarrow> datetime \<Rightarrow> string \<Rightarrow> error + token" where
  "create_token secret utcnow uname =
     (let expire = utcnow + 48 * 3600
      in case getitem USERS uname of
           Inl e \<Rightarrow> Inl e
         | Inr acct \<Rightarrow>
             (case getitem acct ''workspace'' of
                Inl e \<Rightarrow> Inl e
              | Inr ws \<Rightarrow>
                  (case getitem acct ''email'' of
                     Inl e \<Rightarrow> Inl e
                   | Inr em \<Rightarrow>
                       jwt_encode [(''sub'', PStr uname), (''exp'', PDate expire),
                                   (''workspace'', PStr ws), (''email'', PStr em)] secret)))"

text \<open>
  \<open>verify_token\<close>: \<open>now\<close> is the clock \<open>jwt.decode\<close> reads. Every \<open>PyJWTError\<close>
  is caught and replaced by the one \<open>HTTPException(401, "Invalid token")\<close>.
\<close>

definition verify_token :: "string \<Rightarrow> datetime \<Rightarrow> token \<Rightarrow> error + (string \<times> pyval) list" where
  "verify_token secret now tok =
     (case jwt_decode tok secret now of
        Inr payload \<Rightarrow> Inr payload
      | Inl e \<Rightarrow> if PyJWTError e then Inl (HTTPException 401 ''Invalid token'') else Inl e)"




section \<open>Persistence of the credential store: \<open>_load_users\<close>, \<open>_init_from_env\<close>, \<open>_save_users\<close>\<close>





text \<open>
  Python's \<open>s.split(sep)\<close> for a one-character separator, \<open>s.split(sep, 1)\<close>
  unpacked into two names (\<open>ValueError\<close> when there is no separator), and
  \<open>s.split(sep)[0]\<close>.
\<close>

fun split_on :: "char \<Rightarrow> string \<Rightarrow> string list" where
  "split_on sep [] = [[]]"
| "split_on sep (c # cs) =
     (if c = sep then [] # split_on sep cs
      else (case split_on sep cs of
              w # ws \<Rightarrow> (c # w) # ws
            | [] \<Rightarrow> [[c]]))"










section \<open>The login route: \<open>lightrag/api/routers/auth_routes.py\<close>\<close>



section \<open>The identity resolver: \<open>lightrag/api/workspace_middleware.py\<close>\<close>

text \<open>
  What \<open>dispatch\<close> reads of a request: the URL path and the two headers
  (\<open>None\<close> when the header is absent).
\<close>

record request =
  path :: string
  authorization :: "string option"
  x_api_key :: "string option"

text \<open>
  What \<open>dispatch\<close> writes on \<open>request.state\<close>. \<open>st_workspace\<close> is \<open>PNone\<close> for
  Python's \<open>None\<close>.
\<close>

record request_state =
  st_username :: string
  st_workspace :: pyval
  st_user_authenticated :: bool

text \<open>
  \<open>auth_handler.validate_token\<close> is not among the sources: it is the parameter
  \<open>validate_token\<close>, returning the exception it raises or the dict it returns.
  Of that dict \<open>dispatch\<close> reads \<open>["username"]\<close> and \<open>["metadata"]\<close>.
\<close>

record token_data =
  td_username :: string
  td_metadata :: "(string \<times> pyval) list"

text \<open>
  The outcome of \<open>dispatch\<close> up to its call of \<open>call_next\<close>: the request goes on,
  with the state written on it (\<open>None\<close>: nothing was written), or an exception
  leaves the middleware.
\<close>

datatype outcome = CallNext "request_state option" | Raises error

definition startswith :: "string \<Rightarrow> string \<Rightarrow> bool" where
  "startswith s p = (take (length p) s = p)"

text \<open>\<open>xs[i]\<close> on a list: \<open>IndexError\<close> out of range.\<close>

definition list_index :: "'a list \<Rightarrow> nat \<Rightarrow> error + 'a" where
  "list_index xs i = (if i < length xs then Inr (xs ! i) else Inl (PyError ''IndexError''))"

text \<open>\<open>whitelist_paths or [...]\<close> of the constructor.\<close>

definition WorkspaceMiddleware_init :: "string list option \<Rightarrow> string list" where
  "WorkspaceMiddleware_init whitelist_paths =
     (case whitelist_paths of
        None \<Rightarrow> [''/health'', ''/auth/'', ''/docs'', ''/openapi.json'', ''/webui'']
      | Some ps \<Rightarrow>
          if ps = [] then [''/health'', ''/auth/'', ''/docs'', ''/openapi.json'', ''/webui'']
          else ps)"

text \<open>
  The \<open>try\<close> block of the Bearer branch. The three assignments to
  \<open>request.state\<close> are its last statements, so a block that raises has written
  nothing.
\<close>

definition bearer_try ::
  "(string \<Rightarrow> error + token_data) \<Rightarrow> user_dict \<Rightarrow> string \<Rightarrow> error + request_state" where
  "bearer_try validate_token users auth_header =
     (case list_index (split_on CHR '' '' auth_header) 1 of
        Inl e \<Rightarrow> Inl e
      | Inr tok \<Rightarrow>
          (case validate_token tok of
             Inl e \<Rightarrow> Inl e
           | Inr td \<Rightarrow>
               let uname = td_username td;
                   ws = (case map_of (td_metadata td) ''workspace'' of
                           None \<Rightarrow> PNone
                         | Some w \<Rightarrow> w)
               in (case (if \<not> truthy ws
                         then (case get_user_workspace users uname of
                                 Inl e \<Rightarrow> Inl e
                               | Inr w \<Rightarrow> Inr (PStr w))
                         else Inr ws) of
                     Inl e \<Rightarrow> Inl e
                   | Inr ws' \<Rightarrow>
                       Inr \<lparr> st_username = uname, st_workspace = ws',
                             st_user_authenticated = True \<rparr>)))"

text \<open>
  \<open>dispatch\<close>. \<open>api_key\<close> is \<open>global_args.api_key\<close>; \<open>if global_args.api_key\<close> holds
  for a key that is neither \<open>None\<close> nor the empty string. \<open>except Exception\<close>
  catches every exception of the \<open>try\<close> block, an \<open>HTTPException\<close> included.
\<close>

definition api_key_set :: "string option \<Rightarrow> bool" where
  "api_key_set api_key = (case api_key of None \<Rightarrow> False | Some k \<Rightarrow> k \<noteq> [])"

definition anonymous_state :: request_state where
  "anonymous_state =
     \<lparr> st_username = ''anonymous'', st_workspace = PNone, st_user_authenticated = False \<rparr>"

text \<open>
  The test \<open>auth_header and auth_header.startswith("Bearer ")\<close>: the header when
  it holds, \<open>None\<close> when the header is absent, empty or of another scheme.
\<close>

definition bearer_header :: "request \<Rightarrow> string option" where
  "bearer_header req =
     (case authorization req of
        None \<Rightarrow> None
      | Some h \<Rightarrow> if h \<noteq> [] \<and> startswith h ''Bearer '' then Some h else None)"

definition dispatch ::
  "string list \<Rightarrow> string option \<Rightarrow> (string \<Rightarrow> error + token_data) \<Rightarrow> user_dict \<Rightarrow>
   request \<Rightarrow> outcome" where
  "dispatch whitelist_paths api_key validate_token users req =
     (if list_ex (\<lambda>wp. startswith (path req) wp) whitelist_paths
      then CallNext None
      else (case bearer_header req of
              Some auth_header \<Rightarrow>
                (case bearer_try validate_token users auth_header of
                   Inr st \<Rightarrow> CallNext (Some st)
                 | Inl e \<Rightarrow>
                     if api_key_set api_key
                     then Raises (HTTPException 401 ''Invalid authentication'')
                     else CallNext (Some anonymous_state))
            | None \<Rightarrow>
                if api_key_set api_key
                then (if x_api_key req = api_key
                      then CallNext (Some \<lparr> st_username = ''api_user'', st_workspace = PNone,
                                            st_user_authenticated = True \<rparr>)
                      else Raises (HTTPException 401 ''Authentication required''))
                else CallNext (Some anonymous_state)))"

section \<open>The per-workspace engine cache: \<open>lightrag_server_auth.py\<close>\<close>

text \<open>
  A \<open>LightRAG\<close> engine is opaque; \<open>rag_id\<close> is the identity of the Python object,
  so two engines are the same instance exactly when their ids agree.
\<close>

record LightRAG =
  rag_id :: nat
  working_dir :: string
  rag_workspace :: string

text \<open>
  The server's state: the module's dict \<open>rag_instances\<close>, the number of
  \<open>LightRAG(...)\<close> constructions so far (which also names the next object), and
  the directories \<open>os.makedirs\<close> was called for.
\<close>

record server_state =
  rag_instances :: "(string \<times> LightRAG) list"
  constructed :: nat
  made_dirs :: "string list"

text \<open>\<open>os.path.join\<close> of two components on POSIX.\<close>

definition path_join :: "string \<Rightarrow> string \<Rightarrow> string" where
  "path_join a b =
     (if b \<noteq> [] \<and> hd b = CHR ''/'' then b
      else if a = [] \<or> last a = CHR ''/'' then a @ b
      else a @ ''/'' @ b)"

text \<open>
  \<open>get_or_create_rag\<close> is a coroutine with one \<open>await\<close>. A call is at its start,
  suspended at \<open>await rag.initialize_storages()\<close> holding the engine it built,
  or finished with the engine it returns or the exception it raises.
\<close>

datatype coroutine =
    Start "string option"
  | AwaitInit string LightRAG
  | Returned LightRAG
  | Raised error

definition workspace_key :: "string option \<Rightarrow> string" where
  "workspace_key ws = (case ws of None \<Rightarrow> ''default'' | Some w \<Rightarrow> w)"

text \<open>
  \<open>resume\<close> runs a call from where it stands to its next suspension or to its
  end; the code between two suspension points runs without interruption.
  \<open>base_dir\<close> is \<open>global_args.working_dir\<close>; \<open>initialize_storages rag\<close> is the
  exception the awaited initialisation of \<open>rag\<close> raises, if any.
\<close>

fun resume ::
  "string \<Rightarrow> (LightRAG \<Rightarrow> error option) \<Rightarrow> coroutine \<Rightarrow> server_state \<Rightarrow>
   coroutine \<times> server_state" where
  "resume base_dir initialize_storages (Start ws0) st =
     (let ws = workspace_key ws0
      in if ws \<notin> dom (map_of (rag_instances st))
         then
           let wdir = path_join base_dir ws;
               rag = \<lparr> rag_id = constructed st, working_dir = wdir, rag_workspace = ws \<rparr>
           in (AwaitInit ws rag,
               st\<lparr> constructed := Suc (constructed st), made_dirs := made_dirs st @ [wdir] \<rparr>)
         else (case getitem (rag_instances st) ws of
                 Inl e \<Rightarrow> (Raised e, st)
               | Inr r \<Rightarrow> (Returned r, st)))"
| "resume base_dir initialize_storages (AwaitInit ws rag) st =
     (case initialize_storages rag of
        Some e \<Rightarrow> (Raised e, st)
      | None \<Rightarrow>
          let st' = st\<lparr> rag_instances := AList.update ws rag (rag_instances st) \<rparr>
          in (case getitem (rag_instances st') ws of
                Inl e \<Rightarrow> (Raised e, st')
              | Inr r \<Rightarrow> (Returned r, st')))"
| "resume base_dir initialize_storages (Returned r) st = (Returned r, st)"
| "resume base_dir initialize_storages (Raised e) st = (Raised e, st)"

text \<open>
  The event loop: \<open>calls\<close> are the calls in flight, the schedule names, step by
  step, the call that runs next. A step on a finished call, or on no call,
  changes nothing.
\<close>

fun run ::
  "string \<Rightarrow> (LightRAG \<Rightarrow> error option) \<Rightarrow> nat list \<Rightarrow> coroutine list \<times> server_state \<Rightarrow>
   coroutine list \<times> server_state" where
  "run base_dir initialize_storages [] cfg = cfg"
| "run base_dir initialize_storages (i # schedule) (calls, st) =
     (if i < length calls
      then (case resume base_dir initialize_storages (calls ! i) st of
              (c, st') \<Rightarrow> run base_dir initialize_storages schedule (calls[i := c], st'))
      else run base_dir initialize_storages schedule (calls, st))"

section \<open>Properties of the credential store\<close>

lemma map_of_update_same: "map_of (AList.update k v al) k = Some v"
  by (simp add: update_conv')

text \<open>
  C2. For a username that is not yet in the store, and every email and password,
  \<open>create_user\<close> followed by \<open>authenticate\<close> with the same username and password
  succeeds, and the record it returns has the workspace \<open>"user_" + username\<close>.
  This holds for every digest, every salt drawn and every pair of clock readings.
\<close>

theorem create_then_authenticate:
  assumes "uname \<notin> dom (map_of users)"
  shows "\<exists>u. fst (create_user sha slt t0 users uname mail password) = Inr u \<and>
           (\<exists>u'. fst (authenticate sha t1
                        (snd (create_user sha slt t0 users uname mail password))
                        uname password) = Some u' \<and>
                 workspace u' = ''user_'' @ uname \<and> username u' = uname)"
  using assms
  by (simp add: create_user_def authenticate_def Let_def map_of_update_same)

theorem create_then_authenticate_witness:
  "''alice'' \<notin> dom (map_of ([] :: user_dict)) \<and>
   (\<exists>u. fst (create_user (\<lambda>s. s) ''00ff'' 10 [] ''alice'' ''alice@example.com'' ''secret1'')
           = Inr u \<and>
      (\<exists>u'. fst (authenticate (\<lambda>s. s) 20
                   (snd (create_user (\<lambda>s. s) ''00ff'' 10 [] ''alice''
                           ''alice@example.com'' ''secret1''))
                   ''alice'' ''secret1'') = Some u' \<and>
            workspace u' = ''user_'' @ ''alice'' \<and> username u' = ''alice''))"
proof -
  have h: "''alice'' \<notin> dom (map_of ([] :: user_dict))" by simp
  show ?thesis
    using h create_then_authenticate [OF h, of "\<lambda>s. s" "''00ff''" 10 "''alice@example.com''"
        "''secret1''" 20]
    by simp
qed

text \<open>
  C5. For a username that is in the store, \<open>create_user\<close> raises
  \<open>HTTPException(409)\<close> whatever email and password are supplied, and
  \<open>self.users\<close> after the call is what it was before.
\<close>

theorem create_existing_conflict:
  assumes "uname \<in> dom (map_of users)"
  shows "create_user sha slt t0 users uname mail password =
           (Inl (HTTPException 409 (''User '' @ uname @ '' already exists'')), users)"
  using assms by (simp add: create_user_def)

theorem create_existing_conflict_witness:
  "''bob'' \<in> dom (map_of [(''bob'', \<lparr> username = ''bob'', email = PStr ''b@x.org'',
       password_hash = ''h'', salt = ''s'', created_at = 1, last_login = None,
       is_active = PBool True, workspace = ''user_bob'', metadata = PDict [] \<rparr>)]) \<and>
   create_user (\<lambda>s. s) ''aa'' 5
     [(''bob'', \<lparr> username = ''bob'', email = PStr ''b@x.org'',
       password_hash = ''h'', salt = ''s'', created_at = 1, last_login = None,
       is_active = PBool True, workspace = ''user_bob'', metadata = PDict [] \<rparr>)]
     ''bob'' ''other@x.org'' ''pw2'' =
   (Inl (HTTPException 409 ''User bob already exists''),
     [(''bob'', \<lparr> username = ''bob'', email = PStr ''b@x.org'',
       password_hash = ''h'', salt = ''s'', created_at = 1, last_login = None,
       is_active = PBool True, workspace = ''user_bob'', metadata = PDict [] \<rparr>)])"
proof -
  let ?us = "[(''bob'', \<lparr> username = ''bob'', email = PStr ''b@x.org'',
       password_hash = ''h'', salt = ''s'', created_at = 1, last_login = None,
       is_active = PBool True, workspace = ''user_bob'', metadata = PDict [] \<rparr>)]"
  have h: "''bob'' \<in> dom (map_of ?us)" by simp
  show ?thesis
    using h create_existing_conflict [OF h, of "\<lambda>s. s" "''aa''" 5 "''other@x.org''" "''pw2''"]
    by simp
qed

lemma fold_allowed_frame:
  "username (fold (\<lambda>field u. case map_of kwargs field of
       Some v \<Rightarrow> setattr u field v | None \<Rightarrow> u) allowed_fields user) = username user"
  "workspace (fold (\<lambda>field u. case map_of kwargs field of
       Some v \<Rightarrow> setattr u field v | None \<Rightarrow> u) allowed_fields user) = workspace user"
  "created_at (fold (\<lambda>field u. case map_of kwargs field of
       Some v \<Rightarrow> setattr u field v | None \<Rightarrow> u) allowed_fields user) = created_at user"
  "last_login (fold (\<lambda>field u. case map_of kwargs field of
       Some v \<Rightarrow> setattr u field v | None \<Rightarrow> u) allowed_fields user) = last_login user"
  "salt (fold (\<lambda>field u. case map_of kwargs field of
       Some v \<Rightarrow> setattr u field v | None \<Rightarrow> u) allowed_fields user) = salt user"
  "password_hash (fold (\<lambda>field u. case map_of kwargs field of
       Some v \<Rightarrow> setattr u field v | None \<Rightarrow> u) allowed_fields user) = password_hash user"
  by (simp_all add: allowed_fields_def setattr_def split: option.splits)

lemma fold_allowed_set:
  "email (fold (\<lambda>field u. case map_of kwargs field of
       Some v \<Rightarrow> setattr u field v | None \<Rightarrow> u) allowed_fields user) =
     (case map_of kwargs ''email'' of Some v \<Rightarrow> v | None \<Rightarrow> email user)"
  "is_active (fold (\<lambda>field u. case map_of kwargs field of
       Some v \<Rightarrow> setattr u field v | None \<Rightarrow> u) allowed_fields user) =
     (case map_of kwargs ''is_active'' of Some v \<Rightarrow> v | None \<Rightarrow> is_active user)"
  "metadata (fold (\<lambda>field u. case map_of kwargs field of
       Some v \<Rightarrow> setattr u field v | None \<Rightarrow> u) allowed_fields user) =
     (case map_of kwargs ''metadata'' of Some v \<Rightarrow> v | None \<Rightarrow> metadata user)"
  by (simp_all add: allowed_fields_def setattr_def split: option.splits)

lemma update_user_entry:
  assumes "map_of users uname = Some user"
  shows "\<exists>user'. map_of (snd (update_user sha tok users uname kwargs)) uname = Some user' \<and>
         username user' = username user \<and> workspace user' = workspace user \<and>
         created_at user' = created_at user \<and> last_login user' = last_login user \<and>
         ((''self'' \<notin> dom (map_of kwargs) \<and> ''username'' \<notin> dom (map_of kwargs)) \<longrightarrow>
            email user' =
              (case map_of kwargs ''email'' of Some v \<Rightarrow> v | None \<Rightarrow> email user) \<and>
            is_active user' =
              (case map_of kwargs ''is_active'' of Some v \<Rightarrow> v | None \<Rightarrow> is_active user) \<and>
            metadata user' =
              (case map_of kwargs ''metadata'' of Some v \<Rightarrow> v | None \<Rightarrow> metadata user) \<and>
            (map_of kwargs ''password'' = None \<longrightarrow>
               salt user' = salt user \<and> password_hash user' = password_hash user \<and>
               fst (update_user sha tok users uname kwargs) = Inr (Some user')) \<and>
            (\<forall>p. map_of kwargs ''password'' = Some (PStr p) \<longrightarrow>
               salt user' = tok \<and> password_hash user' = hash_password sha p tok \<and>
               fst (update_user sha tok users uname kwargs) = Inr (Some user')))"
proof (cases "(''self'' \<notin> dom (map_of kwargs) \<and> ''username'' \<notin> dom (map_of kwargs))")
  case True
  with assms show ?thesis
    by (auto simp add: update_user_def Let_def update_conv' fold_allowed_frame fold_allowed_set
        split: option.splits pyval.splits)
next
  case False
  then have "update_user sha tok users uname kwargs = (Inl (PyError ''TypeError''), users)"
    by (auto simp add: update_user_def)
  with assms False show ?thesis by auto
qed

lemma update_user_others:
  "other \<noteq> uname \<Longrightarrow>
   map_of (snd (update_user sha tok users uname kwargs)) other = map_of users other"
  by (auto simp add: update_user_def Let_def update_conv' split: option.splits pyval.splits)

text \<open>
  C9. A call of \<open>update_user\<close> passes its keywords in \<open>kwargs\<close>; a keyword named
  \<open>self\<close> or \<open>username\<close> makes the call itself fail with \<open>TypeError\<close>, and the store
  is as it was. For every other call: on a username that is not in the store
  \<open>update_user\<close> returns \<open>None\<close> and leaves the store as it was; on a username that
  is in the store, \<open>email\<close>, \<open>is_active\<close> and \<open>metadata\<close> are the value passed
  under that key, or what they were when the key is not passed; without a
  \<open>password\<close> key the salt and the hash are what they were; with a \<open>password\<close>
  string the salt is the one freshly drawn and the hash is the hash of the new
  password with it. Whatever keys and values \<open>kwargs\<close> holds, the record's
  \<open>username\<close>, \<open>workspace\<close>, \<open>created_at\<close> and \<open>last_login\<close> are what they were,
  and the records of all other users are untouched.
\<close>

theorem update_user_frame:
  "(\<not> (''self'' \<notin> dom (map_of kwargs) \<and> ''username'' \<notin> dom (map_of kwargs)) \<longrightarrow> update_user sha tok users uname kwargs = (Inl (PyError ''TypeError''), users)) \<and>
   ((''self'' \<notin> dom (map_of kwargs) \<and> ''username'' \<notin> dom (map_of kwargs)) \<and> map_of users uname = None \<longrightarrow> update_user sha tok users uname kwargs = (Inr None, users)) \<and>
   (\<forall>user. map_of users uname = Some user \<longrightarrow>
      (\<exists>user'. map_of (snd (update_user sha tok users uname kwargs)) uname = Some user' \<and>
         username user' = username user \<and> workspace user' = workspace user \<and>
         created_at user' = created_at user \<and> last_login user' = last_login user \<and>
         ((''self'' \<notin> dom (map_of kwargs) \<and> ''username'' \<notin> dom (map_of kwargs)) \<longrightarrow>
            email user' =
              (case map_of kwargs ''email'' of Some v \<Rightarrow> v | None \<Rightarrow> email user) \<and>
            is_active user' =
              (case map_of kwargs ''is_active'' of Some v \<Rightarrow> v | None \<Rightarrow> is_active user) \<and>
            metadata user' =
              (case map_of kwargs ''metadata'' of Some v \<Rightarrow> v | None \<Rightarrow> metadata user) \<and>
            (map_of kwargs ''password'' = None \<longrightarrow>
               salt user' = salt user \<and> password_hash user' = password_hash user \<and>
               fst (update_user sha tok users uname kwargs) = Inr (Some user')) \<and>
            (\<forall>p. map_of kwargs ''password'' = Some (PStr p) \<longrightarrow>
               salt user' = tok \<and> password_hash user' = hash_password sha p tok \<and>
               fst (update_user sha tok users uname kwargs) = Inr (Some user'))))) \<and>
   (\<forall>other. other \<noteq> uname \<longrightarrow>
      map_of (snd (update_user sha tok users uname kwargs)) other = map_of users other)"
proof (intro conjI allI impI)
  assume "\<not> (''self'' \<notin> dom (map_of kwargs) \<and> ''username'' \<notin> dom (map_of kwargs))"
  then show "update_user sha tok users uname kwargs = (Inl (PyError ''TypeError''), users)"
    by (auto simp add: update_user_def)
next
  assume "(''self'' \<notin> dom (map_of kwargs) \<and> ''username'' \<notin> dom (map_of kwargs)) \<and> map_of users uname = None"
  then show "update_user sha tok users uname kwargs = (Inr None, users)"
    by (simp add: update_user_def)
next
  fix user assume "map_of users uname = Some user"
  then show "\<exists>user'. map_of (snd (update_user sha tok users uname kwargs)) uname = Some user' \<and>
         username user' = username user \<and> workspace user' = workspace user \<and>
         created_at user' = created_at user \<and> last_login user' = last_login user \<and>
         ((''self'' \<notin> dom (map_of kwargs) \<and> ''username'' \<notin> dom (map_of kwargs)) \<longrightarrow>
            email user' =
              (case map_of kwargs ''email'' of Some v \<Rightarrow> v | None \<Rightarrow> email user) \<and>
            is_active user' =
              (case map_of kwargs ''is_active'' of Some v \<Rightarrow> v | None \<Rightarrow> is_active user) \<and>
            metadata user' =
              (case map_of kwargs ''metadata'' of Some v \<Rightarrow> v | None \<Rightarrow> metadata user) \<and>
            (map_of kwargs ''password'' = None \<longrightarrow>
               salt user' = salt user \<and> password_hash user' = password_hash user \<and>
               fst (update_user sha tok users uname kwargs) = Inr (Some user')) \<and>
            (\<forall>p. map_of kwargs ''password'' = Some (PStr p) \<longrightarrow>
               salt user' = tok \<and> password_hash user' = hash_password sha p tok \<and>
               fst (update_user sha tok users uname kwargs) = Inr (Some user')))"
    by (rule update_user_entry)
next
  fix other assume "other \<noteq> uname"
  then show "map_of (snd (update_user sha tok users uname kwargs)) other = map_of users other"
    by (rule update_user_others)
qed

theorem update_user_frame_witness:
  "map_of [(''bob'', \<lparr> username = ''bob'', email = PStr ''b@x.org'',
       password_hash = ''h'', salt = ''s'', created_at = 1, last_login = Some 7,
       is_active = PBool True, workspace = ''user_bob'', metadata = PDict [] \<rparr>)] ''bob'' = Some \<lparr> username = ''bob'', email = PStr ''b@x.org'',
       password_hash = ''h'', salt = ''s'', created_at = 1, last_login = Some 7,
       is_active = PBool True, workspace = ''user_bob'', metadata = PDict [] \<rparr> \<and>
   (\<exists>user'. map_of (snd (update_user (\<lambda>s. s) ''cafe'' [(''bob'', \<lparr> username = ''bob'', email = PStr ''b@x.org'',
       password_hash = ''h'', salt = ''s'', created_at = 1, last_login = Some 7,
       is_active = PBool True, workspace = ''user_bob'', metadata = PDict [] \<rparr>)] ''bob''
        [(''workspace'', PStr ''user_eve''), (''created_at'', PDate 99),
      (''email'', PStr ''new@x.org''), (''password'', PStr ''pw2'')])) ''bob'' = Some user' \<and>
      username user' = ''bob'' \<and> workspace user' = ''user_bob'' \<and> created_at user' = 1 \<and>
      last_login user' = Some 7 \<and> email user' = PStr ''new@x.org'' \<and>
      is_active user' = PBool True \<and> metadata user' = PDict [] \<and>
      salt user' = ''cafe'' \<and> password_hash user' = ''pw2cafe'') \<and>
   update_user (\<lambda>s. s) ''cafe'' [(''bob'', \<lparr> username = ''bob'', email = PStr ''b@x.org'',
       password_hash = ''h'', salt = ''s'', created_at = 1, last_login = Some 7,
       is_active = PBool True, workspace = ''user_bob'', metadata = PDict [] \<rparr>)] ''carol''
     [(''workspace'', PStr ''user_eve''), (''created_at'', PDate 99),
      (''email'', PStr ''new@x.org''), (''password'', PStr ''pw2'')] = (Inr None, [(''bob'', \<lparr> username = ''bob'', email = PStr ''b@x.org'',
       password_hash = ''h'', salt = ''s'', created_at = 1, last_login = Some 7,
       is_active = PBool True, workspace = ''user_bob'', metadata = PDict [] \<rparr>)]) \<and>
   update_user (\<lambda>s. s) ''cafe'' [(''bob'', \<lparr> username = ''bob'', email = PStr ''b@x.org'',
       password_hash = ''h'', salt = ''s'', created_at = 1, last_login = Some 7,
       is_active = PBool True, workspace = ''user_bob'', metadata = PDict [] \<rparr>)] ''bob''
     [(''username'', PStr ''eve''), (''email'', PStr ''new@x.org'')] = (Inl (PyError ''TypeError''), [(''bob'', \<lparr> username = ''bob'', email = PStr ''b@x.org'',
       password_hash = ''h'', salt = ''s'', created_at = 1, last_login = Some 7,
       is_active = PBool True, workspace = ''user_bob'', metadata = PDict [] \<rparr>)])"
proof -
  let ?bob = "\<lparr> username = ''bob'', email = PStr ''b@x.org'',
       password_hash = ''h'', salt = ''s'', created_at = 1, last_login = Some 7,
       is_active = PBool True, workspace = ''user_bob'', metadata = PDict [] \<rparr>"
  let ?kw = "[(''workspace'', PStr ''user_eve''), (''created_at'', PDate 99),
      (''email'', PStr ''new@x.org''), (''password'', PStr ''pw2'')]"
  let ?bad = "[(''username'', PStr ''eve''), (''email'', PStr ''new@x.org'')]"
  have h: "map_of [(''bob'', ?bob)] ''bob'' = Some ?bob" by simp
  note T = update_user_frame [where users = "[(''bob'', ?bob)]" and sha = "\<lambda>s. s"
      and tok = "''cafe''"]
  have w1: "\<exists>user'. map_of (snd (update_user (\<lambda>s. s) ''cafe'' [(''bob'', ?bob)] ''bob''
        ?kw)) ''bob'' = Some user' \<and>
      username user' = ''bob'' \<and> workspace user' = ''user_bob'' \<and> created_at user' = 1 \<and>
      last_login user' = Some 7 \<and> email user' = PStr ''new@x.org'' \<and>
      is_active user' = PBool True \<and> metadata user' = PDict [] \<and>
      salt user' = ''cafe'' \<and> password_hash user' = ''pw2cafe''"
    using T [where uname = "''bob''" and kwargs = ?kw, THEN conjunct2, THEN conjunct2,
        THEN conjunct1, rule_format, OF h]
    by (auto simp add: hash_password_def)
  have w2: "update_user (\<lambda>s. s) ''cafe'' [(''bob'', ?bob)] ''carol'' ?kw =
      (Inr None, [(''bob'', ?bob)])"
    by (rule T [where uname = "''carol''" and kwargs = ?kw, THEN conjunct2, THEN conjunct1,
          rule_format]) simp
  have w3: "update_user (\<lambda>s. s) ''cafe'' [(''bob'', ?bob)] ''bob'' ?bad =
      (Inl (PyError ''TypeError''), [(''bob'', ?bob)])"
    by (rule T [where uname = "''bob''" and kwargs = ?bad, THEN conjunct1, rule_format]) simp
  from h w1 w2 w3 show ?thesis by (intro conjI)
qed

section \<open>Properties of the login portal's tokens\<close>

lemma USERS_entry:
  assumes "uname \<in> dom (map_of USERS)"
  shows "\<exists>pw em ws. map_of USERS uname = Some [(''password'', pw), (''email'', em), (''workspace'', ws)]"
  using assms by (auto simp add: USERS_def split: if_splits)

text \<open>
  C3, as the code has it. For a user of \<open>USERS\<close>, \<open>create_token\<close> returns a token
  over the claims \<open>sub\<close>, \<open>exp\<close> (the issue time plus 172800 seconds, as an integer
  timestamp), \<open>workspace\<close> and \<open>email\<close>. \<open>verify_token\<close> under the same secret
  returns exactly these claims at every time before the expiry, the issue time
  included. At every time past the expiry, and under every other secret at any
  time, \<open>verify_token\<close> raises \<open>HTTPException(401, "Invalid token")\<close>: one and the
  same error for both failures.
\<close>

theorem token_roundtrip:
  assumes "uname \<in> dom (map_of USERS)"
  shows "\<exists>acct ws em claims.
     map_of USERS uname = Some acct \<and> map_of acct ''workspace'' = Some ws \<and>
     map_of acct ''email'' = Some em \<and>
     claims = [(''sub'', PStr uname), (''exp'', PInt (t + 172800)),
               (''workspace'', PStr ws), (''email'', PStr em)] \<and>
     create_token secret t uname = Inr (Signed secret claims) \<and>
     (\<forall>now. now < t + 172800 \<longrightarrow>
        verify_token secret now (Signed secret claims) = Inr claims) \<and>
     (\<forall>now. t + 172800 < now \<longrightarrow>
        verify_token secret now (Signed secret claims) =
          Inl (HTTPException 401 ''Invalid token'')) \<and>
     (\<forall>secret' now. secret' \<noteq> secret \<longrightarrow>
        verify_token secret' now (Signed secret claims) =
          Inl (HTTPException 401 ''Invalid token''))"
proof -
  from USERS_entry [OF assms] obtain pw em ws where
    g: "map_of USERS uname = Some [(''password'', pw), (''email'', em), (''workspace'', ws)]"
    by blast
  let ?claims = "[(''sub'', PStr uname), (''exp'', PInt (t + 172800)),
               (''workspace'', PStr ws), (''email'', PStr em)]"
  have c: "create_token secret t uname = Inr (Signed secret ?claims)"
    by (simp add: create_token_def getitem_def g jwt_encode_def)
  have v1: "\<forall>now. now < t + 172800 \<longrightarrow>
        verify_token secret now (Signed secret ?claims) = Inr ?claims"
    by (simp add: verify_token_def jwt_decode_def)
  have v2: "\<forall>now. t + 172800 < now \<longrightarrow>
        verify_token secret now (Signed secret ?claims) =
          Inl (HTTPException 401 ''Invalid token'')"
    by (simp add: verify_token_def jwt_decode_def PyJWTError_def)
  have v3: "\<forall>secret' now. secret' \<noteq> secret \<longrightarrow>
        verify_token secret' now (Signed secret ?claims) =
          Inl (HTTPException 401 ''Invalid token'')"
    by (simp add: verify_token_def jwt_decode_def PyJWTError_def)
  from g c v1 v2 v3 show ?thesis by simp
qed

theorem token_roundtrip_witness:
  "''admin'' \<in> dom (map_of USERS) \<and>
   create_token ''k1'' 1000 ''admin'' =
     Inr (Signed ''k1'' [(''sub'', PStr ''admin''), (''exp'', PInt 173800),
            (''workspace'', PStr ''user_admin''), (''email'', PStr ''admin@bosch.com'')]) \<and>
   verify_token ''k1'' 1000
     (Signed ''k1'' [(''sub'', PStr ''admin''), (''exp'', PInt 173800),
            (''workspace'', PStr ''user_admin''), (''email'', PStr ''admin@bosch.com'')]) =
     Inr [(''sub'', PStr ''admin''), (''exp'', PInt 173800),
          (''workspace'', PStr ''user_admin''), (''email'', PStr ''admin@bosch.com'')] \<and>
   verify_token ''k1'' 173801
     (Signed ''k1'' [(''sub'', PStr ''admin''), (''exp'', PInt 173800),
            (''workspace'', PStr ''user_admin''), (''email'', PStr ''admin@bosch.com'')]) =
     Inl (HTTPException 401 ''Invalid token'') \<and>
   verify_token ''k2'' 1000
     (Signed ''k1'' [(''sub'', PStr ''admin''), (''exp'', PInt 173800),
            (''workspace'', PStr ''user_admin''), (''email'', PStr ''admin@bosch.com'')]) =
     Inl (HTTPException 401 ''Invalid token'')"
proof -
  have h: "''admin'' \<in> dom (map_of USERS)" by (simp add: USERS_def)
  have m: "map_of USERS ''admin'' = Some [(''password'', ''admin123''),
      (''email'', ''admin@bosch.com''), (''workspace'', ''user_admin'')]"
    by (simp add: USERS_def)
  from token_roundtrip [OF h, of 1000 "''k1''"] m obtain claims where
    c: "claims = [(''sub'', PStr ''admin''), (''exp'', PInt (1000 + 172800)),
               (''workspace'', PStr ''user_admin''), (''email'', PStr ''admin@bosch.com'')]"
    and r: "create_token ''k1'' 1000 ''admin'' = Inr (Signed ''k1'' claims)"
      "\<forall>now. now < 1000 + 172800 \<longrightarrow> verify_token ''k1'' now (Signed ''k1'' claims) = Inr claims"
      "\<forall>now. 1000 + 172800 < now \<longrightarrow>
        verify_token ''k1'' now (Signed ''k1'' claims) = Inl (HTTPException 401 ''Invalid token'')"
      "\<forall>secret' now. secret' \<noteq> ''k1'' \<longrightarrow>
        verify_token secret' now (Signed ''k1'' claims) = Inl (HTTPException 401 ''Invalid token'')"
    by auto
  have a: "verify_token ''k1'' 1000 (Signed ''k1'' claims) = Inr claims" using r(2) by simp
  have b: "verify_token ''k1'' 173801 (Signed ''k1'' claims) = Inl (HTTPException 401 ''Invalid token'')"
    using r(3) by simp
  have d: "verify_token ''k2'' 1000 (Signed ''k1'' claims) = Inl (HTTPException 401 ''Invalid token'')"
    using r(4) by simp
  show ?thesis using h r(1) a b d unfolding c by simp
qed

text \<open>
  C3, as the claim states it, fails: it asks for an \<open>Expired\<close> error past the
  expiry that is distinct from the \<open>Invalid\<close> error of a wrong secret. For the
  token issued to \<open>admin\<close> at time 0 under the secret \<open>k1\<close>, validation one second
  past the expiry and validation under the secret \<open>k2\<close> raise the same
  \<open>HTTPException(401, "Invalid token")\<close>.
\<close>

theorem token_errors_not_distinct:
  "create_token ''k1'' 0 ''admin'' =
     Inr (Signed ''k1'' [(''sub'', PStr ''admin''), (''exp'', PInt 172800),
            (''workspace'', PStr ''user_admin''), (''email'', PStr ''admin@bosch.com'')]) \<and>
   verify_token ''k1'' 172801
     (Signed ''k1'' [(''sub'', PStr ''admin''), (''exp'', PInt 172800),
            (''workspace'', PStr ''user_admin''), (''email'', PStr ''admin@bosch.com'')]) =
     Inl (HTTPException 401 ''Invalid token'') \<and>
   verify_token ''k2'' 0
     (Signed ''k1'' [(''sub'', PStr ''admin''), (''exp'', PInt 172800),
            (''workspace'', PStr ''user_admin''), (''email'', PStr ''admin@bosch.com'')]) =
     Inl (HTTPException 401 ''Invalid token'')"
  by (simp add: create_token_def getitem_def USERS_def jwt_encode_def verify_token_def
      jwt_decode_def PyJWTError_def)

section \<open>Properties of loading and saving\<close>





section \<open>Properties of the login surfaces\<close>




section \<open>Properties of the identity resolver\<close>

lemma split_on_nonempty: "split_on sep s \<noteq> []"
  by (induction s) (auto split: list.splits)

lemma hd_split_on: "hd (split_on sep s) = takeWhile (\<lambda>c. c \<noteq> sep) s"
  by (induction s) (auto split: list.splits simp add: split_on_nonempty)

lemma bearer_token:
  assumes "startswith h ''Bearer ''"
  shows "list_index (split_on CHR '' '' h) 1 = Inr (takeWhile (\<lambda>c. c \<noteq> CHR '' '') (drop 7 h))"
proof -
  from assms have t: "take 7 h = ''Bearer ''" by (simp add: startswith_def eval_nat_numeral)
  have "h = take 7 h @ drop 7 h" by simp
  with t have "h = ''Bearer '' @ drop 7 h" by simp
  then obtain r where h: "h = ''Bearer '' @ r" and r: "r = drop 7 h" by blast
  obtain w ws where s: "split_on CHR '' '' r = w # ws"
    using split_on_nonempty [of "CHR '' ''" r] by (cases "split_on CHR '' '' r") auto
  have "w = takeWhile (\<lambda>c. c \<noteq> CHR '' '') r"
    using hd_split_on [of "CHR '' ''" r] s by simp
  then show ?thesis
    unfolding r [symmetric] by (simp add: h s list_index_def)
qed

lemma bearer_header_Some:
  "authorization req = Some h \<Longrightarrow> startswith h ''Bearer '' \<Longrightarrow> bearer_header req = Some h"
  by (auto simp add: bearer_header_def startswith_def)

lemma bearer_header_None:
  "\<forall>h. authorization req = Some h \<longrightarrow> \<not> startswith h ''Bearer '' \<Longrightarrow> bearer_header req = None"
  by (auto simp add: bearer_header_def split: option.splits)

lemma list_ex_whitelist:
  "list_ex (\<lambda>wp. startswith p wp) wl = (\<exists>wp \<in> set wl. startswith p wp)"
  by (simp add: list_ex_iff)

text \<open>
  C4. \<open>dispatch\<close> classifies a request in this order. A path that starts with an
  entry of the allow-list goes on with nothing written on the request. Otherwise,
  with an \<open>Authorization\<close> header that starts with \<open>Bearer \<close>, the token (the
  header's text after the prefix, up to the next space) is validated: on success
  the request goes on as authenticated under the token's username, with the
  workspace of the claims when they carry a truthy one and with the workspace
  the credential store holds for that user when they do not; when validation
  raises, the request is rejected with 401 if an API key is configured
  (\<open>global_args.api_key\<close> is a non-empty string) and goes on as \<open>anonymous\<close> with
  no workspace if none is. Otherwise, without such a header: with a key
  configured, an \<open>X-API-Key\<close> header equal to it lets the request go on as
  \<open>api_user\<close> with no workspace and any other or no header is rejected with 401;
  with no key configured the request goes on as \<open>anonymous\<close>.
\<close>

theorem dispatch_priority:
  "((\<exists>wp \<in> set whitelist_paths. startswith (path req) wp) \<longrightarrow>
      dispatch whitelist_paths api_key validate_token users req = CallNext None) \<and>
   (\<not> (\<exists>wp \<in> set whitelist_paths. startswith (path req) wp) \<longrightarrow>
      (\<forall>h. authorization req = Some h \<and> startswith h ''Bearer '' \<longrightarrow>
         (\<forall>td w. validate_token (takeWhile (\<lambda>c. c \<noteq> CHR '' '') (drop 7 h)) = Inr td \<and>
                 map_of (td_metadata td) ''workspace'' = Some w \<and> truthy w \<longrightarrow>
            dispatch whitelist_paths api_key validate_token users req =
              CallNext (Some \<lparr> st_username = td_username td, st_workspace = w,
                               st_user_authenticated = True \<rparr>)) \<and>
         (\<forall>td u. validate_token (takeWhile (\<lambda>c. c \<noteq> CHR '' '') (drop 7 h)) = Inr td \<and>
                 (\<forall>w. map_of (td_metadata td) ''workspace'' = Some w \<longrightarrow> \<not> truthy w) \<and>
                 map_of users (td_username td) = Some u \<longrightarrow>
            dispatch whitelist_paths api_key validate_token users req =
              CallNext (Some \<lparr> st_username = td_username td, st_workspace = PStr (workspace u),
                               st_user_authenticated = True \<rparr>)) \<and>
         (\<forall>e. validate_token (takeWhile (\<lambda>c. c \<noteq> CHR '' '') (drop 7 h)) = Inl e \<and> api_key_set api_key \<longrightarrow>
            dispatch whitelist_paths api_key validate_token users req = Raises (HTTPException 401 ''Invalid authentication'')) \<and>
         (\<forall>e. validate_token (takeWhile (\<lambda>c. c \<noteq> CHR '' '') (drop 7 h)) = Inl e \<and> \<not> api_key_set api_key \<longrightarrow>
            dispatch whitelist_paths api_key validate_token users req = CallNext (Some \<lparr> st_username = ''anonymous'', st_workspace = PNone, st_user_authenticated = False \<rparr>))) \<and>
      ((\<forall>h. authorization req = Some h \<longrightarrow> \<not> startswith h ''Bearer '') \<longrightarrow>
         (api_key_set api_key \<and> x_api_key req = api_key \<longrightarrow>
            dispatch whitelist_paths api_key validate_token users req =
              CallNext (Some \<lparr> st_username = ''api_user'', st_workspace = PNone,
                               st_user_authenticated = True \<rparr>)) \<and>
         (api_key_set api_key \<and> x_api_key req \<noteq> api_key \<longrightarrow>
            dispatch whitelist_paths api_key validate_token users req = Raises (HTTPException 401 ''Authentication required'')) \<and>
         (\<not> api_key_set api_key \<longrightarrow> dispatch whitelist_paths api_key validate_token users req = CallNext (Some \<lparr> st_username = ''anonymous'', st_workspace = PNone, st_user_authenticated = False \<rparr>))))"
proof (intro conjI allI impI)
  assume "\<exists>wp \<in> set whitelist_paths. startswith (path req) wp"
  then show "dispatch whitelist_paths api_key validate_token users req = CallNext None"
    by (simp add: dispatch_def list_ex_whitelist)
next
  fix h td w
  assume nw: "\<not> (\<exists>wp \<in> set whitelist_paths. startswith (path req) wp)"
    and b: "authorization req = Some h \<and> startswith h ''Bearer ''"
    and v: "validate_token (takeWhile (\<lambda>c. c \<noteq> CHR '' '') (drop 7 h)) = Inr td \<and>
            map_of (td_metadata td) ''workspace'' = Some w \<and> truthy w"
  from b have bh: "bearer_header req = Some h" by (simp add: bearer_header_Some)
  from b have t: "list_index (split_on CHR '' '' h) (Suc 0) =
      Inr (takeWhile (\<lambda>c. c \<noteq> CHR '' '') (drop 7 h))"
    using bearer_token [of h] by simp
  from v have "bearer_try validate_token users h =
      Inr \<lparr> st_username = td_username td, st_workspace = w, st_user_authenticated = True \<rparr>"
    by (simp add: bearer_try_def t Let_def)
  with nw bh show "dispatch whitelist_paths api_key validate_token users req =
      CallNext (Some \<lparr> st_username = td_username td, st_workspace = w,
                       st_user_authenticated = True \<rparr>)"
    by (simp add: dispatch_def list_ex_whitelist)
next
  fix h td u
  assume nw: "\<not> (\<exists>wp \<in> set whitelist_paths. startswith (path req) wp)"
    and b: "authorization req = Some h \<and> startswith h ''Bearer ''"
    and v: "validate_token (takeWhile (\<lambda>c. c \<noteq> CHR '' '') (drop 7 h)) = Inr td \<and>
            (\<forall>w. map_of (td_metadata td) ''workspace'' = Some w \<longrightarrow> \<not> truthy w) \<and>
            map_of users (td_username td) = Some u"
  from b have bh: "bearer_header req = Some h" by (simp add: bearer_header_Some)
  from b have t: "list_index (split_on CHR '' '' h) (Suc 0) =
      Inr (takeWhile (\<lambda>c. c \<noteq> CHR '' '') (drop 7 h))"
    using bearer_token [of h] by simp
  from v have "\<not> truthy (case map_of (td_metadata td) ''workspace'' of None \<Rightarrow> PNone | Some w \<Rightarrow> w)"
    by (cases "map_of (td_metadata td) ''workspace''") auto
  with v have "bearer_try validate_token users h =
      Inr \<lparr> st_username = td_username td, st_workspace = PStr (workspace u),
            st_user_authenticated = True \<rparr>"
    by (simp add: bearer_try_def t Let_def get_user_workspace_def get_user_def)
  with nw bh show "dispatch whitelist_paths api_key validate_token users req =
      CallNext (Some \<lparr> st_username = td_username td, st_workspace = PStr (workspace u),
                       st_user_authenticated = True \<rparr>)"
    by (simp add: dispatch_def list_ex_whitelist)
next
  fix h e
  assume nw: "\<not> (\<exists>wp \<in> set whitelist_paths. startswith (path req) wp)"
    and b: "authorization req = Some h \<and> startswith h ''Bearer ''"
    and v: "validate_token (takeWhile (\<lambda>c. c \<noteq> CHR '' '') (drop 7 h)) = Inl e \<and> api_key_set api_key"
  from b have bh: "bearer_header req = Some h" by (simp add: bearer_header_Some)
  from b have t: "list_index (split_on CHR '' '' h) (Suc 0) =
      Inr (takeWhile (\<lambda>c. c \<noteq> CHR '' '') (drop 7 h))"
    using bearer_token [of h] by simp
  from v have "bearer_try validate_token users h = Inl e"
    by (simp add: bearer_try_def t)
  with nw bh v show "dispatch whitelist_paths api_key validate_token users req = Raises (HTTPException 401 ''Invalid authentication'')"
    by (simp add: dispatch_def list_ex_whitelist)
next
  fix h e
  assume nw: "\<not> (\<exists>wp \<in> set whitelist_paths. startswith (path req) wp)"
    and b: "authorization req = Some h \<and> startswith h ''Bearer ''"
    and v: "validate_token (takeWhile (\<lambda>c. c \<noteq> CHR '' '') (drop 7 h)) = Inl e \<and> \<not> api_key_set api_key"
  from b have bh: "bearer_header req = Some h" by (simp add: bearer_header_Some)
  from b have t: "list_index (split_on CHR '' '' h) (Suc 0) =
      Inr (takeWhile (\<lambda>c. c \<noteq> CHR '' '') (drop 7 h))"
    using bearer_token [of h] by simp
  from v have "bearer_try validate_token users h = Inl e"
    by (simp add: bearer_try_def t)
  with nw bh v show "dispatch whitelist_paths api_key validate_token users req = CallNext (Some \<lparr> st_username = ''anonymous'', st_workspace = PNone, st_user_authenticated = False \<rparr>)"
    by (simp add: dispatch_def list_ex_whitelist anonymous_state_def)
next
  assume nw: "\<not> (\<exists>wp \<in> set whitelist_paths. startswith (path req) wp)"
    and nb: "\<forall>h. authorization req = Some h \<longrightarrow> \<not> startswith h ''Bearer ''"
    and k: "api_key_set api_key \<and> x_api_key req = api_key"
  from nb have "bearer_header req = None" by (rule bearer_header_None)
  with nw k show "dispatch whitelist_paths api_key validate_token users req =
      CallNext (Some \<lparr> st_username = ''api_user'', st_workspace = PNone,
                       st_user_authenticated = True \<rparr>)"
    by (simp add: dispatch_def list_ex_whitelist)
next
  assume nw: "\<not> (\<exists>wp \<in> set whitelist_paths. startswith (path req) wp)"
    and nb: "\<forall>h. authorization req = Some h \<longrightarrow> \<not> startswith h ''Bearer ''"
    and k: "api_key_set api_key \<and> x_api_key req \<noteq> api_key"
  from nb have "bearer_header req = None" by (rule bearer_header_None)
  with nw k show "dispatch whitelist_paths api_key validate_token users req = Raises (HTTPException 401 ''Authentication required'')"
    by (simp add: dispatch_def list_ex_whitelist)
next
  assume nw: "\<not> (\<exists>wp \<in> set whitelist_paths. startswith (path req) wp)"
    and nb: "\<forall>h. authorization req = Some h \<longrightarrow> \<not> startswith h ''Bearer ''"
    and k: "\<not> api_key_set api_key"
  from nb have "bearer_header req = None" by (rule bearer_header_None)
  with nw k show "dispatch whitelist_paths api_key validate_token users req = CallNext (Some \<lparr> st_username = ''anonymous'', st_workspace = PNone, st_user_authenticated = False \<rparr>)"
    by (simp add: dispatch_def list_ex_whitelist anonymous_state_def)
qed

theorem dispatch_priority_witness:
  "dispatch [''/health'', ''/auth/'', ''/docs''] (Some ''k'')
     (\<lambda>t. if t = ''abc'' then Inr \<lparr> td_username = ''alice'', td_metadata = [(''workspace'', PStr ''user_alice'')] \<rparr> else if t = ''old'' then Inr \<lparr> td_username = ''alice'', td_metadata = [(''email'', PStr ''a@x.org'')] \<rparr> else Inl (HTTPException 401 ''Invalid token''))
     [(''alice'', \<lparr> username = ''alice'', email = PStr ''a@x.org'', password_hash = ''h'', salt = ''s'', created_at = 1, last_login = None, is_active = PBool True, workspace = ''user_alice'', metadata = PDict [] \<rparr>)]
     \<lparr> path = ''/health'', authorization = None, x_api_key = None \<rparr> =
     CallNext None \<and>
   dispatch [''/health'', ''/auth/'', ''/docs''] (Some ''k'')
     (\<lambda>t. if t = ''abc'' then Inr \<lparr> td_username = ''alice'', td_metadata = [(''workspace'', PStr ''user_alice'')] \<rparr> else if t = ''old'' then Inr \<lparr> td_username = ''alice'', td_metadata = [(''email'', PStr ''a@x.org'')] \<rparr> else Inl (HTTPException 401 ''Invalid token''))
     [(''alice'', \<lparr> username = ''alice'', email = PStr ''a@x.org'', password_hash = ''h'', salt = ''s'', created_at = 1, last_login = None, is_active = PBool True, workspace = ''user_alice'', metadata = PDict [] \<rparr>)]
     \<lparr> path = ''/query'', authorization = Some ''Bearer abc'', x_api_key = None \<rparr> =
     CallNext (Some \<lparr> st_username = ''alice'', st_workspace = PStr ''user_alice'', st_user_authenticated = True \<rparr>) \<and>
   dispatch [''/health'', ''/auth/'', ''/docs''] (Some ''k'')
     (\<lambda>t. if t = ''abc'' then Inr \<lparr> td_username = ''alice'', td_metadata = [(''workspace'', PStr ''user_alice'')] \<rparr> else if t = ''old'' then Inr \<lparr> td_username = ''alice'', td_metadata = [(''email'', PStr ''a@x.org'')] \<rparr> else Inl (HTTPException 401 ''Invalid token''))
     [(''alice'', \<lparr> username = ''alice'', email = PStr ''a@x.org'', password_hash = ''h'', salt = ''s'', created_at = 1, last_login = None, is_active = PBool True, workspace = ''user_alice'', metadata = PDict [] \<rparr>)]
     \<lparr> path = ''/query'', authorization = Some ''Bearer old'', x_api_key = None \<rparr> =
     CallNext (Some \<lparr> st_username = ''alice'', st_workspace = PStr ''user_alice'', st_user_authenticated = True \<rparr>) \<and>
   dispatch [''/health'', ''/auth/'', ''/docs''] (Some ''k'')
     (\<lambda>t. if t = ''abc'' then Inr \<lparr> td_username = ''alice'', td_metadata = [(''workspace'', PStr ''user_alice'')] \<rparr> else if t = ''old'' then Inr \<lparr> td_username = ''alice'', td_metadata = [(''email'', PStr ''a@x.org'')] \<rparr> else Inl (HTTPException 401 ''Invalid token''))
     [(''alice'', \<lparr> username = ''alice'', email = PStr ''a@x.org'', password_hash = ''h'', salt = ''s'', created_at = 1, last_login = None, is_active = PBool True, workspace = ''user_alice'', metadata = PDict [] \<rparr>)]
     \<lparr> path = ''/query'', authorization = Some ''Bearer bad'', x_api_key = Some ''k'' \<rparr> =
     Raises (HTTPException 401 ''Invalid authentication'') \<and>
   dispatch [''/health'', ''/auth/'', ''/docs''] None
     (\<lambda>t. if t = ''abc'' then Inr \<lparr> td_username = ''alice'', td_metadata = [(''workspace'', PStr ''user_alice'')] \<rparr> else if t = ''old'' then Inr \<lparr> td_username = ''alice'', td_metadata = [(''email'', PStr ''a@x.org'')] \<rparr> else Inl (HTTPException 401 ''Invalid token''))
     [(''alice'', \<lparr> username = ''alice'', email = PStr ''a@x.org'', password_hash = ''h'', salt = ''s'', created_at = 1, last_login = None, is_active = PBool True, workspace = ''user_alice'', metadata = PDict [] \<rparr>)]
     \<lparr> path = ''/query'', authorization = Some ''Bearer bad'', x_api_key = None \<rparr> =
     CallNext (Some \<lparr> st_username = ''anonymous'', st_workspace = PNone, st_user_authenticated = False \<rparr>) \<and>
   dispatch [''/health'', ''/auth/'', ''/docs''] (Some ''k'')
     (\<lambda>t. if t = ''abc'' then Inr \<lparr> td_username = ''alice'', td_metadata = [(''workspace'', PStr ''user_alice'')] \<rparr> else if t = ''old'' then Inr \<lparr> td_username = ''alice'', td_metadata = [(''email'', PStr ''a@x.org'')] \<rparr> else Inl (HTTPException 401 ''Invalid token''))
     [(''alice'', \<lparr> username = ''alice'', email = PStr ''a@x.org'', password_hash = ''h'', salt = ''s'', created_at = 1, last_login = None, is_active = PBool True, workspace = ''user_alice'', metadata = PDict [] \<rparr>)]
     \<lparr> path = ''/query'', authorization = None, x_api_key = Some ''k'' \<rparr> =
     CallNext (Some \<lparr> st_username = ''api_user'', st_workspace = PNone, st_user_authenticated = True \<rparr>) \<and>
   dispatch [''/health'', ''/auth/'', ''/docs''] (Some ''k'')
     (\<lambda>t. if t = ''abc'' then Inr \<lparr> td_username = ''alice'', td_metadata = [(''workspace'', PStr ''user_alice'')] \<rparr> else if t = ''old'' then Inr \<lparr> td_username = ''alice'', td_metadata = [(''email'', PStr ''a@x.org'')] \<rparr> else Inl (HTTPException 401 ''Invalid token''))
     [(''alice'', \<lparr> username = ''alice'', email = PStr ''a@x.org'', password_hash = ''h'', salt = ''s'', created_at = 1, last_login = None, is_active = PBool True, workspace = ''user_alice'', metadata = PDict [] \<rparr>)]
     \<lparr> path = ''/query'', authorization = Some ''Basic xyz'', x_api_key = Some ''z'' \<rparr> =
     Raises (HTTPException 401 ''Authentication required'') \<and>
   dispatch [''/health'', ''/auth/'', ''/docs''] None
     (\<lambda>t. if t = ''abc'' then Inr \<lparr> td_username = ''alice'', td_metadata = [(''workspace'', PStr ''user_alice'')] \<rparr> else if t = ''old'' then Inr \<lparr> td_username = ''alice'', td_metadata = [(''email'', PStr ''a@x.org'')] \<rparr> else Inl (HTTPException 401 ''Invalid token''))
     [(''alice'', \<lparr> username = ''alice'', email = PStr ''a@x.org'', password_hash = ''h'', salt = ''s'', created_at = 1, last_login = None, is_active = PBool True, workspace = ''user_alice'', metadata = PDict [] \<rparr>)]
     \<lparr> path = ''/query'', authorization = None, x_api_key = None \<rparr> =
     CallNext (Some \<lparr> st_username = ''anonymous'', st_workspace = PNone, st_user_authenticated = False \<rparr>)"
proof -
  have w1: "dispatch [''/health'', ''/auth/'', ''/docs''] (Some ''k'')
     (\<lambda>t. if t = ''abc'' then Inr \<lparr> td_username = ''alice'', td_metadata = [(''workspace'', PStr ''user_alice'')] \<rparr> else if t = ''old'' then Inr \<lparr> td_username = ''alice'', td_metadata = [(''email'', PStr ''a@x.org'')] \<rparr> else Inl (HTTPException 401 ''Invalid token''))
     [(''alice'', \<lparr> username = ''alice'', email = PStr ''a@x.org'', password_hash = ''h'', salt = ''s'', created_at = 1, last_login = None, is_active = PBool True, workspace = ''user_alice'', metadata = PDict [] \<rparr>)]
     \<lparr> path = ''/health'', authorization = None, x_api_key = None \<rparr> =
     CallNext None"
    using dispatch_priority [of "[''/health'', ''/auth/'', ''/docs'']" "\<lparr> path = ''/health'', authorization = None, x_api_key = None \<rparr>" "Some ''k''" "(\<lambda>t. if t = ''abc'' then Inr \<lparr> td_username = ''alice'', td_metadata = [(''workspace'', PStr ''user_alice'')] \<rparr> else if t = ''old'' then Inr \<lparr> td_username = ''alice'', td_metadata = [(''email'', PStr ''a@x.org'')] \<rparr> else Inl (HTTPException 401 ''Invalid token''))" "[(''alice'', \<lparr> username = ''alice'', email = PStr ''a@x.org'', password_hash = ''h'', salt = ''s'', created_at = 1, last_login = None, is_active = PBool True, workspace = ''user_alice'', metadata = PDict [] \<rparr>)]"]
    by (simp add: startswith_def api_key_set_def)
  have w2: "dispatch [''/health'', ''/auth/'', ''/docs''] (Some ''k'')
     (\<lambda>t. if t = ''abc'' then Inr \<lparr> td_username = ''alice'', td_metadata = [(''workspace'', PStr ''user_alice'')] \<rparr> else if t = ''old'' then Inr \<lparr> td_username = ''alice'', td_metadata = [(''email'', PStr ''a@x.org'')] \<rparr> else Inl (HTTPException 401 ''Invalid token''))
     [(''alice'', \<lparr> username = ''alice'', email = PStr ''a@x.org'', password_hash = ''h'', salt = ''s'', created_at = 1, last_login = None, is_active = PBool True, workspace = ''user_alice'', metadata = PDict [] \<rparr>)]
     \<lparr> path = ''/query'', authorization = Some ''Bearer abc'', x_api_key = None \<rparr> =
     CallNext (Some \<lparr> st_username = ''alice'', st_workspace = PStr ''user_alice'', st_user_authenticated = True \<rparr>)"
    using dispatch_priority [of "[''/health'', ''/auth/'', ''/docs'']" "\<lparr> path = ''/query'', authorization = Some ''Bearer abc'', x_api_key = None \<rparr>" "Some ''k''" "(\<lambda>t. if t = ''abc'' then Inr \<lparr> td_username = ''alice'', td_metadata = [(''workspace'', PStr ''user_alice'')] \<rparr> else if t = ''old'' then Inr \<lparr> td_username = ''alice'', td_metadata = [(''email'', PStr ''a@x.org'')] \<rparr> else Inl (HTTPException 401 ''Invalid token''))" "[(''alice'', \<lparr> username = ''alice'', email = PStr ''a@x.org'', password_hash = ''h'', salt = ''s'', created_at = 1, last_login = None, is_active = PBool True, workspace = ''user_alice'', metadata = PDict [] \<rparr>)]"]
    by (simp add: startswith_def api_key_set_def)
  have w3: "dispatch [''/health'', ''/auth/'', ''/docs''] (Some ''k'')
     (\<lambda>t. if t = ''abc'' then Inr \<lparr> td_username = ''alice'', td_metadata = [(''workspace'', PStr ''user_alice'')] \<rparr> else if t = ''old'' then Inr \<lparr> td_username = ''alice'', td_metadata = [(''email'', PStr ''a@x.org'')] \<rparr> else Inl (HTTPException 401 ''Invalid token''))
     [(''alice'', \<lparr> username = ''alice'', email = PStr ''a@x.org'', password_hash = ''h'', salt = ''s'', created_at = 1, last_login = None, is_active = PBool True, workspace = ''user_alice'', metadata = PDict [] \<rparr>)]
     \<lparr> path = ''/query'', authorization = Some ''Bearer old'', x_api_key = None \<rparr> =
     CallNext (Some \<lparr> st_username = ''alice'', st_workspace = PStr ''user_alice'', st_user_authenticated = True \<rparr>)"
    using dispatch_priority [of "[''/health'', ''/auth/'', ''/docs'']" "\<lparr> path = ''/query'', authorization = Some ''Bearer old'', x_api_key = None \<rparr>" "Some ''k''" "(\<lambda>t. if t = ''abc'' then Inr \<lparr> td_username = ''alice'', td_metadata = [(''workspace'', PStr ''user_alice'')] \<rparr> else if t = ''old'' then Inr \<lparr> td_username = ''alice'', td_metadata = [(''email'', PStr ''a@x.org'')] \<rparr> else Inl (HTTPException 401 ''Invalid token''))" "[(''alice'', \<lparr> username = ''alice'', email = PStr ''a@x.org'', password_hash = ''h'', salt = ''s'', created_at = 1, last_login = None, is_active = PBool True, workspace = ''user_alice'', metadata = PDict [] \<rparr>)]"]
    by (simp add: startswith_def api_key_set_def)
  have w4: "dispatch [''/health'', ''/auth/'', ''/docs''] (Some ''k'')
     (\<lambda>t. if t = ''abc'' then Inr \<lparr> td_username = ''alice'', td_metadata = [(''workspace'', PStr ''user_alice'')] \<rparr> else if t = ''old'' then Inr \<lparr> td_username = ''alice'', td_metadata = [(''email'', PStr ''a@x.org'')] \<rparr> else Inl (HTTPException 401 ''Invalid token''))
     [(''alice'', \<lparr> username = ''alice'', email = PStr ''a@x.org'', password_hash = ''h'', salt = ''s'', created_at = 1, last_login = None, is_active = PBool True, workspace = ''user_alice'', metadata = PDict [] \<rparr>)]
     \<lparr> path = ''/query'', authorization = Some ''Bearer bad'', x_api_key = Some ''k'' \<rparr> =
     Raises (HTTPException 401 ''Invalid authentication'')"
    using dispatch_priority [of "[''/health'', ''/auth/'', ''/docs'']" "\<lparr> path = ''/query'', authorization = Some ''Bearer bad'', x_api_key = Some ''k'' \<rparr>" "Some ''k''" "(\<lambda>t. if t = ''abc'' then Inr \<lparr> td_username = ''alice'', td_metadata = [(''workspace'', PStr ''user_alice'')] \<rparr> else if t = ''old'' then Inr \<lparr> td_username = ''alice'', td_metadata = [(''email'', PStr ''a@x.org'')] \<rparr> else Inl (HTTPException 401 ''Invalid token''))" "[(''alice'', \<lparr> username = ''alice'', email = PStr ''a@x.org'', password_hash = ''h'', salt = ''s'', created_at = 1, last_login = None, is_active = PBool True, workspace = ''user_alice'', metadata = PDict [] \<rparr>)]"]
    by (simp add: startswith_def api_key_set_def)
  have w5: "dispatch [''/health'', ''/auth/'', ''/docs''] None
     (\<lambda>t. if t = ''abc'' then Inr \<lparr> td_username = ''alice'', td_metadata = [(''workspace'', PStr ''user_alice'')] \<rparr> else if t = ''old'' then Inr \<lparr> td_username = ''alice'', td_metadata = [(''email'', PStr ''a@x.org'')] \<rparr> else Inl (HTTPException 401 ''Invalid token''))
     [(''alice'', \<lparr> username = ''alice'', email = PStr ''a@x.org'', password_hash = ''h'', salt = ''s'', created_at = 1, last_login = None, is_active = PBool True, workspace = ''user_alice'', metadata = PDict [] \<rparr>)]
     \<lparr> path = ''/query'', authorization = Some ''Bearer bad'', x_api_key = None \<rparr> =
     CallNext (Some \<lparr> st_username = ''anonymous'', st_workspace = PNone, st_user_authenticated = False \<rparr>)"
    using dispatch_priority [of "[''/health'', ''/auth/'', ''/docs'']" "\<lparr> path = ''/query'', authorization = Some ''Bearer bad'', x_api_key = None \<rparr>" "None" "(\<lambda>t. if t = ''abc'' then Inr \<lparr> td_username = ''alice'', td_metadata = [(''workspace'', PStr ''user_alice'')] \<rparr> else if t = ''old'' then Inr \<lparr> td_username = ''alice'', td_metadata = [(''email'', PStr ''a@x.org'')] \<rparr> else Inl (HTTPException 401 ''Invalid token''))" "[(''alice'', \<lparr> username = ''alice'', email = PStr ''a@x.org'', password_hash = ''h'', salt = ''s'', created_at = 1, last_login = None, is_active = PBool True, workspace = ''user_alice'', metadata = PDict [] \<rparr>)]"]
    by (simp add: startswith_def api_key_set_def)
  have w6: "dispatch [''/health'', ''/auth/'', ''/docs''] (Some ''k'')
     (\<lambda>t. if t = ''abc'' then Inr \<lparr> td_username = ''alice'', td_metadata = [(''workspace'', PStr ''user_alice'')] \<rparr> else if t = ''old'' then Inr \<lparr> td_username = ''alice'', td_metadata = [(''email'', PStr ''a@x.org'')] \<rparr> else Inl (HTTPException 401 ''Invalid token''))
     [(''alice'', \<lparr> username = ''alice'', email = PStr ''a@x.org'', password_hash = ''h'', salt = ''s'', created_at = 1, last_login = None, is_active = PBool True, workspace = ''user_alice'', metadata = PDict [] \<rparr>)]
     \<lparr> path = ''/query'', authorization = None, x_api_key = Some ''k'' \<rparr> =
     CallNext (Some \<lparr> st_username = ''api_user'', st_workspace = PNone, st_user_authenticated = True \<rparr>)"
    using dispatch_priority [of "[''/health'', ''/auth/'', ''/docs'']" "\<lparr> path = ''/query'', authorization = None, x_api_key = Some ''k'' \<rparr>" "Some ''k''" "(\<lambda>t. if t = ''abc'' then Inr \<lparr> td_username = ''alice'', td_metadata = [(''workspace'', PStr ''user_alice'')] \<rparr> else if t = ''old'' then Inr \<lparr> td_username = ''alice'', td_metadata = [(''email'', PStr ''a@x.org'')] \<rparr> else Inl (HTTPException 401 ''Invalid token''))" "[(''alice'', \<lparr> username = ''alice'', email = PStr ''a@x.org'', password_hash = ''h'', salt = ''s'', created_at = 1, last_login = None, is_active = PBool True, workspace = ''user_alice'', metadata = PDict [] \<rparr>)]"]
    by (simp add: startswith_def api_key_set_def)
  have w7: "dispatch [''/health'', ''/auth/'', ''/docs''] (Some ''k'')
     (\<lambda>t. if t = ''abc'' then Inr \<lparr> td_username = ''alice'', td_metadata = [(''workspace'', PStr ''user_alice'')] \<rparr> else if t = ''old'' then Inr \<lparr> td_username = ''alice'', td_metadata = [(''email'', PStr ''a@x.org'')] \<rparr> else Inl (HTTPException 401 ''Invalid token''))
     [(''alice'', \<lparr> username = ''alice'', email = PStr ''a@x.org'', password_hash = ''h'', salt = ''s'', created_at = 1, last_login = None, is_active = PBool True, workspace = ''user_alice'', metadata = PDict [] \<rparr>)]
     \<lparr> path = ''/query'', authorization = Some ''Basic xyz'', x_api_key = Some ''z'' \<rparr> =
     Raises (HTTPException 401 ''Authentication required'')"
    using dispatch_priority [of "[''/health'', ''/auth/'', ''/docs'']" "\<lparr> path = ''/query'', authorization = Some ''Basic xyz'', x_api_key = Some ''z'' \<rparr>" "Some ''k''" "(\<lambda>t. if t = ''abc'' then Inr \<lparr> td_username = ''alice'', td_metadata = [(''workspace'', PStr ''user_alice'')] \<rparr> else if t = ''old'' then Inr \<lparr> td_username = ''alice'', td_metadata = [(''email'', PStr ''a@x.org'')] \<rparr> else Inl (HTTPException 401 ''Invalid token''))" "[(''alice'', \<lparr> username = ''alice'', email = PStr ''a@x.org'', password_hash = ''h'', salt = ''s'', created_at = 1, last_login = None, is_active = PBool True, workspace = ''user_alice'', metadata = PDict [] \<rparr>)]"]
    by (simp add: startswith_def api_key_set_def)
  have w8: "dispatch [''/health'', ''/auth/'', ''/docs''] None
     (\<lambda>t. if t = ''abc'' then Inr \<lparr> td_username = ''alice'', td_metadata = [(''workspace'', PStr ''user_alice'')] \<rparr> else if t = ''old'' then Inr \<lparr> td_username = ''alice'', td_metadata = [(''email'', PStr ''a@x.org'')] \<rparr> else Inl (HTTPException 401 ''Invalid token''))
     [(''alice'', \<lparr> username = ''alice'', email = PStr ''a@x.org'', password_hash = ''h'', salt = ''s'', created_at = 1, last_login = None, is_active = PBool True, workspace = ''user_alice'', metadata = PDict [] \<rparr>)]
     \<lparr> path = ''/query'', authorization = None, x_api_key = None \<rparr> =
     CallNext (Some \<lparr> st_username = ''anonymous'', st_workspace = PNone, st_user_authenticated = False \<rparr>)"
    using dispatch_priority [of "[''/health'', ''/auth/'', ''/docs'']" "\<lparr> path = ''/query'', authorization = None, x_api_key = None \<rparr>" "None" "(\<lambda>t. if t = ''abc'' then Inr \<lparr> td_username = ''alice'', td_metadata = [(''workspace'', PStr ''user_alice'')] \<rparr> else if t = ''old'' then Inr \<lparr> td_username = ''alice'', td_metadata = [(''email'', PStr ''a@x.org'')] \<rparr> else Inl (HTTPException 401 ''Invalid token''))" "[(''alice'', \<lparr> username = ''alice'', email = PStr ''a@x.org'', password_hash = ''h'', salt = ''s'', created_at = 1, last_login = None, is_active = PBool True, workspace = ''user_alice'', metadata = PDict [] \<rparr>)]"]
    by (simp add: startswith_def api_key_set_def)
  from w1 w2 w3 w4 w5 w6 w7 w8 show ?thesis by (intro conjI)
qed

lemma dispatch_raises_401:
  assumes "dispatch whitelist_paths api_key validate_token users req = Raises e"
  shows "e = HTTPException 401 ''Invalid authentication'' \<or>
         e = HTTPException 401 ''Authentication required''"
  using assms
  by (auto simp add: dispatch_def split: if_splits option.splits sum.splits)

text \<open>
  C10. For a request off the allow-list with a Bearer token that validates,
  whose claims carry no truthy workspace and whose user is not in the credential
  store: the lookup \<open>get_user_workspace\<close> raises \<open>HTTPException(404)\<close>, the handler
  of the \<open>try\<close> block catches it, and \<open>dispatch\<close> rejects with 401 when an API key
  is configured and lets the request go on as \<open>anonymous\<close> with no workspace when
  none is. A user that \<open>delete_user\<close> removed is not in the store. Whatever the
  request, an exception that leaves \<open>dispatch\<close> is one of its two 401s, never
  a 404.
\<close>

theorem deleted_user_token_not_404:
  "(\<not> (\<exists>wp \<in> set whitelist_paths. startswith (path req) wp) \<and>
    authorization req = Some h \<and> startswith h ''Bearer '' \<and>
    validate_token (takeWhile (\<lambda>c. c \<noteq> CHR '' '') (drop 7 h)) = Inr td \<and>
    (\<forall>w. map_of (td_metadata td) ''workspace'' = Some w \<longrightarrow> \<not> truthy w) \<and>
    map_of users (td_username td) = None \<longrightarrow>
      get_user_workspace users (td_username td) =
        Inl (HTTPException 404 (''User '' @ td_username td @ '' not found'')) \<and>
      (api_key_set api_key \<longrightarrow>
         dispatch whitelist_paths api_key validate_token users req = Raises (HTTPException 401 ''Invalid authentication'')) \<and>
      (\<not> api_key_set api_key \<longrightarrow> dispatch whitelist_paths api_key validate_token users req = CallNext (Some \<lparr> st_username = ''anonymous'', st_workspace = PNone, st_user_authenticated = False \<rparr>))) \<and>
   map_of (snd (delete_user users0 uname)) uname = None \<and>
   (\<forall>e. dispatch whitelist_paths api_key validate_token users req = Raises e \<longrightarrow>
      e = HTTPException 401 ''Invalid authentication'' \<or>
      e = HTTPException 401 ''Authentication required'')"
proof (intro conjI allI impI)
  assume a: "\<not> (\<exists>wp \<in> set whitelist_paths. startswith (path req) wp) \<and>
    authorization req = Some h \<and> startswith h ''Bearer '' \<and>
    validate_token (takeWhile (\<lambda>c. c \<noteq> CHR '' '') (drop 7 h)) = Inr td \<and>
    (\<forall>w. map_of (td_metadata td) ''workspace'' = Some w \<longrightarrow> \<not> truthy w) \<and>
    map_of users (td_username td) = None"
  then show g: "get_user_workspace users (td_username td) =
        Inl (HTTPException 404 (''User '' @ td_username td @ '' not found''))"
    by (simp add: get_user_workspace_def get_user_def)
  from a have bh: "bearer_header req = Some h" by (simp add: bearer_header_Some)
  from a have t: "list_index (split_on CHR '' '' h) (Suc 0) = Inr (takeWhile (\<lambda>c. c \<noteq> CHR '' '') (drop 7 h))"
    using bearer_token [of h] by simp
  from a have "\<not> truthy (case map_of (td_metadata td) ''workspace'' of
                           None \<Rightarrow> PNone | Some w \<Rightarrow> w)"
    by (cases "map_of (td_metadata td) ''workspace''") auto
  with a g have b: "bearer_try validate_token users h =
      Inl (HTTPException 404 (''User '' @ td_username td @ '' not found''))"
    by (simp add: bearer_try_def t Let_def)
  {
    assume "api_key_set api_key"
    with a bh b show "dispatch whitelist_paths api_key validate_token users req = Raises (HTTPException 401 ''Invalid authentication'')"
      by (simp add: dispatch_def list_ex_whitelist)
  }
  {
    assume "\<not> api_key_set api_key"
    with a bh b show "dispatch whitelist_paths api_key validate_token users req = CallNext (Some \<lparr> st_username = ''anonymous'', st_workspace = PNone, st_user_authenticated = False \<rparr>)"
      by (simp add: dispatch_def list_ex_whitelist anonymous_state_def)
  }
next
  show "map_of (snd (delete_user users0 uname)) uname = None"
    by (auto simp add: delete_user_def delete_conv')
next
  fix e assume "dispatch whitelist_paths api_key validate_token users req = Raises e"
  then show "e = HTTPException 401 ''Invalid authentication'' \<or>
      e = HTTPException 401 ''Authentication required''"
    by (rule dispatch_raises_401)
qed

theorem deleted_user_token_not_404_witness:
  "get_user_workspace (snd (delete_user [(''alice'', \<lparr> username = ''alice'', email = PStr ''a@x.org'', password_hash = ''h'', salt = ''s'', created_at = 1, last_login = None, is_active = PBool True, workspace = ''user_alice'', metadata = PDict [] \<rparr>)] ''alice'')) ''alice'' = Inl (HTTPException 404 ''User alice not found'') \<and>
   dispatch [''/health'', ''/auth/'', ''/docs''] (Some ''k'') (\<lambda>t. if t = ''old'' then Inr \<lparr> td_username = ''alice'', td_metadata = [(''email'', PStr ''a@x.org'')] \<rparr> else Inl (HTTPException 401 ''Invalid token''))
     (snd (delete_user [(''alice'', \<lparr> username = ''alice'', email = PStr ''a@x.org'', password_hash = ''h'', salt = ''s'', created_at = 1, last_login = None, is_active = PBool True, workspace = ''user_alice'', metadata = PDict [] \<rparr>)] ''alice''))
     \<lparr> path = ''/query'', authorization = Some ''Bearer old'', x_api_key = None \<rparr> =
     Raises (HTTPException 401 ''Invalid authentication'') \<and>
   dispatch [''/health'', ''/auth/'', ''/docs''] None (\<lambda>t. if t = ''old'' then Inr \<lparr> td_username = ''alice'', td_metadata = [(''email'', PStr ''a@x.org'')] \<rparr> else Inl (HTTPException 401 ''Invalid token''))
     (snd (delete_user [(''alice'', \<lparr> username = ''alice'', email = PStr ''a@x.org'', password_hash = ''h'', salt = ''s'', created_at = 1, last_login = None, is_active = PBool True, workspace = ''user_alice'', metadata = PDict [] \<rparr>)] ''alice''))
     \<lparr> path = ''/query'', authorization = Some ''Bearer old'', x_api_key = None \<rparr> =
     CallNext (Some \<lparr> st_username = ''anonymous'', st_workspace = PNone, st_user_authenticated = False \<rparr>)"
proof -
  have w1: "dispatch [''/health'', ''/auth/'', ''/docs''] (Some ''k'') (\<lambda>t. if t = ''old'' then Inr \<lparr> td_username = ''alice'', td_metadata = [(''email'', PStr ''a@x.org'')] \<rparr> else Inl (HTTPException 401 ''Invalid token''))
     (snd (delete_user [(''alice'', \<lparr> username = ''alice'', email = PStr ''a@x.org'', password_hash = ''h'', salt = ''s'', created_at = 1, last_login = None, is_active = PBool True, workspace = ''user_alice'', metadata = PDict [] \<rparr>)] ''alice''))
     \<lparr> path = ''/query'', authorization = Some ''Bearer old'', x_api_key = None \<rparr> =
     Raises (HTTPException 401 ''Invalid authentication'')"
    using deleted_user_token_not_404 [where whitelist_paths = "[''/health'', ''/auth/'', ''/docs'']" and req = "\<lparr> path = ''/query'', authorization = Some ''Bearer old'', x_api_key = None \<rparr>"
        and h = "''Bearer old''" and validate_token = "(\<lambda>t. if t = ''old'' then Inr \<lparr> td_username = ''alice'', td_metadata = [(''email'', PStr ''a@x.org'')] \<rparr> else Inl (HTTPException 401 ''Invalid token''))"
        and td = "\<lparr> td_username = ''alice'', td_metadata = [(''email'', PStr ''a@x.org'')] \<rparr>" and users = "(snd (delete_user [(''alice'', \<lparr> username = ''alice'', email = PStr ''a@x.org'', password_hash = ''h'', salt = ''s'', created_at = 1, last_login = None, is_active = PBool True, workspace = ''user_alice'', metadata = PDict [] \<rparr>)] ''alice''))" and api_key = "Some ''k''"]
    by (simp add: startswith_def api_key_set_def delete_user_def)
  have w2: "dispatch [''/health'', ''/auth/'', ''/docs''] None (\<lambda>t. if t = ''old'' then Inr \<lparr> td_username = ''alice'', td_metadata = [(''email'', PStr ''a@x.org'')] \<rparr> else Inl (HTTPException 401 ''Invalid token''))
     (snd (delete_user [(''alice'', \<lparr> username = ''alice'', email = PStr ''a@x.org'', password_hash = ''h'', salt = ''s'', created_at = 1, last_login = None, is_active = PBool True, workspace = ''user_alice'', metadata = PDict [] \<rparr>)] ''alice''))
     \<lparr> path = ''/query'', authorization = Some ''Bearer old'', x_api_key = None \<rparr> =
     CallNext (Some \<lparr> st_username = ''anonymous'', st_workspace = PNone, st_user_authenticated = False \<rparr>)"
    using deleted_user_token_not_404 [where whitelist_paths = "[''/health'', ''/auth/'', ''/docs'']" and req = "\<lparr> path = ''/query'', authorization = Some ''Bearer old'', x_api_key = None \<rparr>"
        and h = "''Bearer old''" and validate_token = "(\<lambda>t. if t = ''old'' then Inr \<lparr> td_username = ''alice'', td_metadata = [(''email'', PStr ''a@x.org'')] \<rparr> else Inl (HTTPException 401 ''Invalid token''))"
        and td = "\<lparr> td_username = ''alice'', td_metadata = [(''email'', PStr ''a@x.org'')] \<rparr>" and users = "(snd (delete_user [(''alice'', \<lparr> username = ''alice'', email = PStr ''a@x.org'', password_hash = ''h'', salt = ''s'', created_at = 1, last_login = None, is_active = PBool True, workspace = ''user_alice'', metadata = PDict [] \<rparr>)] ''alice''))" and api_key = "None"]
    by (simp add: startswith_def api_key_set_def delete_user_def)
  have w3: "get_user_workspace (snd (delete_user [(''alice'', \<lparr> username = ''alice'', email = PStr ''a@x.org'', password_hash = ''h'', salt = ''s'', created_at = 1, last_login = None, is_active = PBool True, workspace = ''user_alice'', metadata = PDict [] \<rparr>)] ''alice'')) ''alice'' = Inl (HTTPException 404 ''User alice not found'')"
    using deleted_user_token_not_404 [where whitelist_paths = "[''/health'', ''/auth/'', ''/docs'']" and req = "\<lparr> path = ''/query'', authorization = Some ''Bearer old'', x_api_key = None \<rparr>"
        and h = "''Bearer old''" and validate_token = "(\<lambda>t. if t = ''old'' then Inr \<lparr> td_username = ''alice'', td_metadata = [(''email'', PStr ''a@x.org'')] \<rparr> else Inl (HTTPException 401 ''Invalid token''))"
        and td = "\<lparr> td_username = ''alice'', td_metadata = [(''email'', PStr ''a@x.org'')] \<rparr>" and users = "(snd (delete_user [(''alice'', \<lparr> username = ''alice'', email = PStr ''a@x.org'', password_hash = ''h'', salt = ''s'', created_at = 1, last_login = None, is_active = PBool True, workspace = ''user_alice'', metadata = PDict [] \<rparr>)] ''alice''))" and api_key = "None"]
    by (simp add: startswith_def api_key_set_def delete_user_def)
  from w3 w1 w2 show ?thesis by (intro conjI)
qed

section \<open>Properties of the per-workspace engine cache\<close>

lemma resume_cached:
  assumes "map_of (rag_instances st) (workspace_key ws0) = Some r"
  shows "resume base_dir init (Start ws0) st = (Returned r, st)"
  using assms by (auto simp add: Let_def getitem_def)

text \<open>
  C6. A call of \<open>get_or_create_rag\<close> for a workspace whose key is in
  \<open>rag_instances\<close> returns the cached engine in its first uninterrupted stretch:
  it never reaches the \<open>await\<close>, it constructs nothing and it leaves the server's
  state as it was, whatever the initialisation of an engine would do. The key of
  \<open>None\<close> is \<open>"default"\<close>: a call with \<open>None\<close> behaves as a call with
  \<open>"default"\<close>, and once the default engine is cached every such call returns it.
\<close>

theorem cached_instance_returned:
  "(map_of (rag_instances st) (workspace_key ws0) = Some r \<longrightarrow>
      resume base_dir init (Start ws0) st = (Returned r, st)) \<and>
   workspace_key None = ''default'' \<and>
   resume base_dir init (Start None) st = resume base_dir init (Start (Some ''default'')) st \<and>
   (map_of (rag_instances st) ''default'' = Some r \<longrightarrow>
      resume base_dir init (Start None) st = (Returned r, st))"
  by (auto simp add: Let_def getitem_def workspace_key_def)

lemma run_cached:
  assumes "map_of (rag_instances st) (workspace_key ws0) = Some r"
    and "\<forall>j < length calls. calls ! j = Start ws0 \<or> calls ! j = Returned r"
  shows "snd (run base_dir init sched (calls, st)) = st \<and>
         length (fst (run base_dir init sched (calls, st))) = length calls \<and>
         (\<forall>j < length calls. fst (run base_dir init sched (calls, st)) ! j =
            (if j \<in> set sched then Returned r else calls ! j))"
  using assms(2)
proof (induction sched arbitrary: calls)
  case Nil
  then show ?case by simp
next
  case (Cons i sched)
  show ?case
  proof (cases "i < length calls")
    case False
    then have "run base_dir init (i # sched) (calls, st) = run base_dir init sched (calls, st)"
      by simp
    moreover from False have "\<forall>j < length calls. j \<noteq> i" by auto
    ultimately show ?thesis using Cons.IH [OF Cons.prems] by auto
  next
    case True
    with Cons.prems have "calls ! i = Start ws0 \<or> calls ! i = Returned r" by simp
    then have s: "resume base_dir init (calls ! i) st = (Returned r, st)"
      using resume_cached [OF assms(1)] by auto
    with True have e: "run base_dir init (i # sched) (calls, st) =
        run base_dir init sched (calls[i := Returned r], st)" by simp
    have inv: "\<forall>j < length (calls[i := Returned r]).
        calls[i := Returned r] ! j = Start ws0 \<or> calls[i := Returned r] ! j = Returned r"
      using Cons.prems True by (auto simp add: nth_list_update)
    from Cons.IH [OF inv] show ?thesis
      unfolding e by (auto simp add: nth_list_update)
  qed
qed

text \<open>
  C1, as the code has it. Let \<open>n\<close> calls for one workspace be in flight while no
  engine is cached for it, and let the initialisation of the first engine
  succeed. If the call that runs first also runs its second stretch (storing the
  engine) before any other call starts, then, however the remaining steps are
  scheduled, exactly one engine is constructed, it is the one cached, and every
  call that has run returns that same instance.
\<close>

theorem one_construction_after_first_call:
  assumes "i < n"
    and "workspace_key ws0 \<notin> dom (map_of (rag_instances st))"
    and "init \<lparr> rag_id = constructed st, working_dir = path_join base_dir (workspace_key ws0), rag_workspace = workspace_key ws0 \<rparr> = None"
  shows "constructed (snd (run base_dir init (i # i # sched) (replicate n (Start ws0), st))) =
           Suc (constructed st) \<and>
         map_of (rag_instances (snd (run base_dir init (i # i # sched)
                                        (replicate n (Start ws0), st))))
           (workspace_key ws0) = Some \<lparr> rag_id = constructed st, working_dir = path_join base_dir (workspace_key ws0), rag_workspace = workspace_key ws0 \<rparr> \<and>
         (\<forall>j < n. fst (run base_dir init (i # i # sched) (replicate n (Start ws0), st)) ! j =
            (if j \<in> set (i # sched) then Returned \<lparr> rag_id = constructed st, working_dir = path_join base_dir (workspace_key ws0), rag_workspace = workspace_key ws0 \<rparr> else Start ws0))"
proof -
  let ?rag = "\<lparr> rag_id = constructed st, working_dir = path_join base_dir (workspace_key ws0), rag_workspace = workspace_key ws0 \<rparr>"
  let ?st1 = "st\<lparr> constructed := Suc (constructed st),
                  made_dirs := made_dirs st @ [path_join base_dir (workspace_key ws0)] \<rparr>"
  let ?st2 = "?st1\<lparr> rag_instances := AList.update (workspace_key ws0) ?rag (rag_instances st) \<rparr>"
  let ?calls2 = "(replicate n (Start ws0))[i := Returned ?rag]"
  have r1: "resume base_dir init (Start ws0) st = (AwaitInit (workspace_key ws0) ?rag, ?st1)"
    using assms(2) by (simp add: Let_def)
  have r2: "resume base_dir init (AwaitInit (workspace_key ws0) ?rag) ?st1 = (Returned ?rag, ?st2)"
    using assms(3) by (simp add: Let_def getitem_def update_conv')
  have e: "run base_dir init (i # i # sched) (replicate n (Start ws0), st) =
           run base_dir init sched (?calls2, ?st2)"
    using assms(1) r1 r2 by simp
  have c: "map_of (rag_instances ?st2) (workspace_key ws0) = Some ?rag"
    by (simp add: update_conv')
  have inv: "\<forall>j < length ?calls2. ?calls2 ! j = Start ws0 \<or> ?calls2 ! j = Returned ?rag"
    using assms(1) by (auto simp add: nth_list_update)
  from run_cached [OF c inv, of base_dir init sched]
  have s: "snd (run base_dir init sched (?calls2, ?st2)) = ?st2"
    and f: "\<forall>j < length ?calls2. fst (run base_dir init sched (?calls2, ?st2)) ! j =
            (if j \<in> set sched then Returned ?rag else ?calls2 ! j)"
    by blast+
  have a: "constructed (snd (run base_dir init (i # i # sched) (replicate n (Start ws0), st))) =
           Suc (constructed st)"
    unfolding e s by simp
  have b: "map_of (rag_instances (snd (run base_dir init (i # i # sched)
                                        (replicate n (Start ws0), st))))
           (workspace_key ws0) = Some ?rag"
    unfolding e s by (rule c)
  have d: "\<forall>j < n. fst (run base_dir init (i # i # sched) (replicate n (Start ws0), st)) ! j =
            (if j \<in> set (i # sched) then Returned ?rag else Start ws0)"
    unfolding e using f assms(1) by (auto simp add: nth_list_update)
  from a b d show ?thesis by blast
qed

text \<open>
  C1, as the claim states it, fails. Two calls for \<open>"tenantA"\<close> with an empty
  cache, the second starting while the first is suspended at the \<open>await\<close>: both
  find the key missing, two engines are constructed, and the two callers receive
  different instances (ids 0 and 1).
\<close>

theorem interleaved_calls_construct_twice:
  "run ''/data'' (\<lambda>r. None) [0, 1, 0, 1]
     ([Start (Some ''tenantA''), Start (Some ''tenantA'')],
      \<lparr> rag_instances = [], constructed = 0, made_dirs = [] \<rparr>) =
   ([Returned \<lparr> rag_id = 0, working_dir = ''/data/tenantA'', rag_workspace = ''tenantA'' \<rparr>,
     Returned \<lparr> rag_id = 1, working_dir = ''/data/tenantA'', rag_workspace = ''tenantA'' \<rparr>],
    \<lparr> rag_instances =
        [(''tenantA'',
          \<lparr> rag_id = 1, working_dir = ''/data/tenantA'', rag_workspace = ''tenantA'' \<rparr>)],
      constructed = 2, made_dirs = [''/data/tenantA'', ''/data/tenantA''] \<rparr>)"
  by (simp add: Let_def workspace_key_def path_join_def getitem_def)

theorem cached_instance_returned_witness:
  "map_of (rag_instances \<lparr> rag_instances = [(''tenantA'', \<lparr> rag_id = 0, working_dir = ''/data/tenantA'', rag_workspace = ''tenantA'' \<rparr>), (''default'', \<lparr> rag_id = 4, working_dir = ''/data/default'', rag_workspace = ''default'' \<rparr>)], constructed = 5, made_dirs = [] \<rparr>) (workspace_key (Some ''tenantA'')) = Some \<lparr> rag_id = 0, working_dir = ''/data/tenantA'', rag_workspace = ''tenantA'' \<rparr> \<and>
   resume ''/data'' (\<lambda>r. Some (PyError ''RuntimeError'')) (Start (Some ''tenantA'')) \<lparr> rag_instances = [(''tenantA'', \<lparr> rag_id = 0, working_dir = ''/data/tenantA'', rag_workspace = ''tenantA'' \<rparr>), (''default'', \<lparr> rag_id = 4, working_dir = ''/data/default'', rag_workspace = ''default'' \<rparr>)], constructed = 5, made_dirs = [] \<rparr> =
     (Returned \<lparr> rag_id = 0, working_dir = ''/data/tenantA'', rag_workspace = ''tenantA'' \<rparr>, \<lparr> rag_instances = [(''tenantA'', \<lparr> rag_id = 0, working_dir = ''/data/tenantA'', rag_workspace = ''tenantA'' \<rparr>), (''default'', \<lparr> rag_id = 4, working_dir = ''/data/default'', rag_workspace = ''default'' \<rparr>)], constructed = 5, made_dirs = [] \<rparr>) \<and>
   map_of (rag_instances \<lparr> rag_instances = [(''tenantA'', \<lparr> rag_id = 0, working_dir = ''/data/tenantA'', rag_workspace = ''tenantA'' \<rparr>), (''default'', \<lparr> rag_id = 4, working_dir = ''/data/default'', rag_workspace = ''default'' \<rparr>)], constructed = 5, made_dirs = [] \<rparr>) ''default'' = Some \<lparr> rag_id = 4, working_dir = ''/data/default'', rag_workspace = ''default'' \<rparr> \<and>
   resume ''/data'' (\<lambda>r. Some (PyError ''RuntimeError'')) (Start None) \<lparr> rag_instances = [(''tenantA'', \<lparr> rag_id = 0, working_dir = ''/data/tenantA'', rag_workspace = ''tenantA'' \<rparr>), (''default'', \<lparr> rag_id = 4, working_dir = ''/data/default'', rag_workspace = ''default'' \<rparr>)], constructed = 5, made_dirs = [] \<rparr> =
     (Returned \<lparr> rag_id = 4, working_dir = ''/data/default'', rag_workspace = ''default'' \<rparr>, \<lparr> rag_instances = [(''tenantA'', \<lparr> rag_id = 0, working_dir = ''/data/tenantA'', rag_workspace = ''tenantA'' \<rparr>), (''default'', \<lparr> rag_id = 4, working_dir = ''/data/default'', rag_workspace = ''default'' \<rparr>)], constructed = 5, made_dirs = [] \<rparr>)"
proof -
  note T = cached_instance_returned
  have h1: "map_of (rag_instances \<lparr> rag_instances = [(''tenantA'', \<lparr> rag_id = 0, working_dir = ''/data/tenantA'', rag_workspace = ''tenantA'' \<rparr>), (''default'', \<lparr> rag_id = 4, working_dir = ''/data/default'', rag_workspace = ''default'' \<rparr>)], constructed = 5, made_dirs = [] \<rparr>) (workspace_key (Some ''tenantA'')) = Some \<lparr> rag_id = 0, working_dir = ''/data/tenantA'', rag_workspace = ''tenantA'' \<rparr>"
    by (simp add: workspace_key_def)
  have h2: "map_of (rag_instances \<lparr> rag_instances = [(''tenantA'', \<lparr> rag_id = 0, working_dir = ''/data/tenantA'', rag_workspace = ''tenantA'' \<rparr>), (''default'', \<lparr> rag_id = 4, working_dir = ''/data/default'', rag_workspace = ''default'' \<rparr>)], constructed = 5, made_dirs = [] \<rparr>) ''default'' = Some \<lparr> rag_id = 4, working_dir = ''/data/default'', rag_workspace = ''default'' \<rparr>"
    by simp
  have w1: "resume ''/data'' (\<lambda>r. Some (PyError ''RuntimeError'')) (Start (Some ''tenantA'')) \<lparr> rag_instances = [(''tenantA'', \<lparr> rag_id = 0, working_dir = ''/data/tenantA'', rag_workspace = ''tenantA'' \<rparr>), (''default'', \<lparr> rag_id = 4, working_dir = ''/data/default'', rag_workspace = ''default'' \<rparr>)], constructed = 5, made_dirs = [] \<rparr> =
     (Returned \<lparr> rag_id = 0, working_dir = ''/data/tenantA'', rag_workspace = ''tenantA'' \<rparr>, \<lparr> rag_instances = [(''tenantA'', \<lparr> rag_id = 0, working_dir = ''/data/tenantA'', rag_workspace = ''tenantA'' \<rparr>), (''default'', \<lparr> rag_id = 4, working_dir = ''/data/default'', rag_workspace = ''default'' \<rparr>)], constructed = 5, made_dirs = [] \<rparr>)"
    by (rule T [THEN conjunct1, rule_format, OF h1])
  have w2: "resume ''/data'' (\<lambda>r. Some (PyError ''RuntimeError'')) (Start None) \<lparr> rag_instances = [(''tenantA'', \<lparr> rag_id = 0, working_dir = ''/data/tenantA'', rag_workspace = ''tenantA'' \<rparr>), (''default'', \<lparr> rag_id = 4, working_dir = ''/data/default'', rag_workspace = ''default'' \<rparr>)], constructed = 5, made_dirs = [] \<rparr> =
     (Returned \<lparr> rag_id = 4, working_dir = ''/data/default'', rag_workspace = ''default'' \<rparr>, \<lparr> rag_instances = [(''tenantA'', \<lparr> rag_id = 0, working_dir = ''/data/tenantA'', rag_workspace = ''tenantA'' \<rparr>), (''default'', \<lparr> rag_id = 4, working_dir = ''/data/default'', rag_workspace = ''default'' \<rparr>)], constructed = 5, made_dirs = [] \<rparr>)"
    by (rule T [THEN conjunct2, THEN conjunct2, THEN conjunct2, rule_format, OF h2])
  from h1 w1 h2 w2 show ?thesis by (intro conjI)
qed

theorem one_construction_after_first_call_witness:
  "(0::nat) < 3 \<and>
   workspace_key (Some ''tenantA'') \<notin>
     dom (map_of (rag_instances \<lparr> rag_instances = [], constructed = 0, made_dirs = [] \<rparr>)) \<and>
   constructed (snd (run ''/data'' (\<lambda>r. None) [0, 0, 1, 2, 1] (replicate 3 (Start (Some ''tenantA'')), \<lparr> rag_instances = [], constructed = 0, made_dirs = [] \<rparr>))) = 1 \<and>
   fst (run ''/data'' (\<lambda>r. None) [0, 0, 1, 2, 1] (replicate 3 (Start (Some ''tenantA'')), \<lparr> rag_instances = [], constructed = 0, made_dirs = [] \<rparr>)) ! 0 = Returned \<lparr> rag_id = 0, working_dir = ''/data/tenantA'', rag_workspace = ''tenantA'' \<rparr> \<and>
   fst (run ''/data'' (\<lambda>r. None) [0, 0, 1, 2, 1] (replicate 3 (Start (Some ''tenantA'')), \<lparr> rag_instances = [], constructed = 0, made_dirs = [] \<rparr>)) ! 1 = Returned \<lparr> rag_id = 0, working_dir = ''/data/tenantA'', rag_workspace = ''tenantA'' \<rparr> \<and>
   fst (run ''/data'' (\<lambda>r. None) [0, 0, 1, 2, 1] (replicate 3 (Start (Some ''tenantA'')), \<lparr> rag_instances = [], constructed = 0, made_dirs = [] \<rparr>)) ! 2 = Returned \<lparr> rag_id = 0, working_dir = ''/data/tenantA'', rag_workspace = ''tenantA'' \<rparr>"
proof -
  let ?st = "\<lparr> rag_instances = [], constructed = 0, made_dirs = [] \<rparr>"
  have h1: "(0::nat) < 3" by simp
  have h2: "workspace_key (Some ''tenantA'') \<notin> dom (map_of (rag_instances ?st))" by simp
  have h3: "(\<lambda>r::LightRAG. (None :: error option))
      \<lparr> rag_id = constructed ?st,
        working_dir = path_join ''/data'' (workspace_key (Some ''tenantA'')),
        rag_workspace = workspace_key (Some ''tenantA'') \<rparr> = None" by simp
  note T = one_construction_after_first_call [where sched = "[1, 2, 1]"
      and base_dir = "''/data''", OF h1 h2 h3]
  from T have a: "constructed (snd (run ''/data'' (\<lambda>r. None) [0, 0, 1, 2, 1] (replicate 3 (Start (Some ''tenantA'')), \<lparr> rag_instances = [], constructed = 0, made_dirs = [] \<rparr>))) = 1" by simp
  from T have f: "\<forall>j < 3. fst (run ''/data'' (\<lambda>r. None) [0, 0, 1, 2, 1] (replicate 3 (Start (Some ''tenantA'')), \<lparr> rag_instances = [], constructed = 0, made_dirs = [] \<rparr>)) ! j =
      (if j \<in> set [0, 1, 2, 1] then Returned \<lparr> rag_id = 0, working_dir = ''/data/tenantA'', rag_workspace = ''tenantA'' \<rparr> else Start (Some ''tenantA''))"
    by (simp add: path_join_def workspace_key_def)
  from f have b0: "fst (run ''/data'' (\<lambda>r. None) [0, 0, 1, 2, 1] (replicate 3 (Start (Some ''tenantA'')), \<lparr> rag_instances = [], constructed = 0, made_dirs = [] \<rparr>)) ! 0 = Returned \<lparr> rag_id = 0, working_dir = ''/data/tenantA'', rag_workspace = ''tenantA'' \<rparr>" by simp
  from f have b1: "fst (run ''/data'' (\<lambda>r. None) [0, 0, 1, 2, 1] (replicate 3 (Start (Some ''tenantA'')), \<lparr> rag_instances = [], constructed = 0, made_dirs = [] \<rparr>)) ! 1 = Returned \<lparr> rag_id = 0, working_dir = ''/data/tenantA'', rag_workspace = ''tenantA'' \<rparr>" by simp
  from f have b2: "fst (run ''/data'' (\<lambda>r. None) [0, 0, 1, 2, 1] (replicate 3 (Start (Some ''tenantA'')), \<lparr> rag_instances = [], constructed = 0, made_dirs = [] \<rparr>)) ! 2 = Returned \<lparr> rag_id = 0, working_dir = ''/data/tenantA'', rag_workspace = ''tenantA'' \<rparr>" by simp
  from h1 h2 a b0 b1 b2 show ?thesis by (intro conjI)
qed

end
